theory Spec2Isabelle
  imports Complex_Main "HOL-Library.Word" "HOL-Library.AList" "HOL-Library.Sublist"
begin

section \<open>Version-specific SQL (pkg/config/helpers.go)\<close>

text \<open>
  \<^verbatim>\<open>PgVersion\<close> is a Go \<^verbatim>\<open>int\<close> in \<^verbatim>\<open>server_version_num\<close> format. The resolver only
  compares versions, so they are modelled as \<^typ>\<open>int\<close>. \<^verbatim>\<open>NoVersion\<close> is the constant -1.
\<close>

type_synonym PgVersion = int

definition NoVersion :: PgVersion where
  "NoVersion = -1"

record VerSQL =
  SQL :: string
  MinVer :: PgVersion
  MaxVer :: PgVersion

text \<open>
  The ways a call does not return normally. A Go run-time panic (an index out of range, a
  negative length given to \<^verbatim>\<open>make\<close>, a failed unchecked type assertion) ends the process,
  and so does \<^verbatim>\<open>log.Fatalf\<close>; a goroutine that waits on a channel that is never served
  never returns.
\<close>

datatype abort = IndexOutOfRange | NegativeLen | TypeAssertion | BlockedForever | FatalExit

text \<open>The \<^verbatim>\<open>for _, query := range v\<close> loop of \<^verbatim>\<open>VerSQLs.Query\<close>, with its final \<^verbatim>\<open>return ""\<close>.\<close>

fun Query_loop :: "VerSQL list \<Rightarrow> PgVersion \<Rightarrow> string" where
  "Query_loop [] version = ''''"
| "Query_loop (query # rest) version =
     (if (version \<ge> MinVer query \<or> MinVer query = 0) \<and> (version < MaxVer query \<or> MaxVer query = 0)
      then SQL query
      else Query_loop rest version)"

text \<open>
  \<^verbatim>\<open>VerSQLs.Query\<close>. The guard short-circuits, so \<^verbatim>\<open>v[0]\<close> inside it is only read when
  \<^verbatim>\<open>len(v) == 1\<close>; the \<^verbatim>\<open>return v[0].SQL\<close> of the first branch indexes the slice
  unguarded and panics on an empty one.
\<close>

definition VerSQLs_Query :: "VerSQL list \<Rightarrow> PgVersion \<Rightarrow> abort + string" where
  "VerSQLs_Query v version =
     (if version = NoVersion \<or> (length v = 1 \<and> MaxVer (v ! 0) = 0 \<and> MinVer (v ! 0) = 0)
      then (case v of [] \<Rightarrow> Inl IndexOutOfRange | q # _ \<Rightarrow> Inr (SQL q))
      else Inr (Query_loop v version))"

text \<open>The range test as the specification words it: \<open>(V \<ge> min or min = 0) and (V < max or max = 0)\<close>.\<close>

definition in_range :: "PgVersion \<Rightarrow> VerSQL \<Rightarrow> bool" where
  "in_range V q = ((V \<ge> MinVer q \<or> MinVer q = 0) \<and> (V < MaxVer q \<or> MaxVer q = 0))"

text \<open>The two entries of the specification's example: \<open>[100000, \<infinity>)\<close> is "A", \<open>[90400, 100000)\<close> is "B".\<close>

definition example_variants :: "VerSQL list" where
  "example_variants =
     [\<lparr>SQL = ''A'', MinVer = 100000, MaxVer = 0\<rparr>, \<lparr>SQL = ''B'', MinVer = 90400, MaxVer = 100000\<rparr>]"

section \<open>Go maps\<close>

text \<open>
  A Go map is modelled as an association list. A \<^verbatim>\<open>range\<close> over a map visits the keys in
  an order the run time chooses; the list order stands for that choice, so a statement proved
  for every list holds for every iteration order. \<^verbatim>\<open>m[k] = v\<close> is \<^const>\<open>AList.update\<close>,
  and \<^verbatim>\<open>m[k]\<close> yields the zero value of the element type on a missing key.
\<close>

type_synonym 'v gomap = "(string \<times> 'v) list"

definition index_map :: "'v \<Rightarrow> ('k \<times> 'v) list \<Rightarrow> 'k \<Rightarrow> 'v" where
  "index_map zero m k = (case map_of m k of None \<Rightarrow> zero | Some v \<Rightarrow> v)"

section \<open>Row values and their conversion (pkg/db/db.go)\<close>

text \<open>
  The dynamic shapes of an \<^verbatim>\<open>interface{}\<close> column value that the two type switches
  distinguish. \<^verbatim>\<open>float64\<close> is the type parameter \<open>'f\<close>; a \<^verbatim>\<open>time.Time\<close> is carried by
  its \<^verbatim>\<open>Unix()\<close> seconds; a \<^verbatim>\<open>*pgtype.Numeric\<close> by what its \<^verbatim>\<open>AssignTo\<close> stores and
  returns, and by what its \<^verbatim>\<open>String\<close> method returns if the type has one. \<open>VIntKind\<close> is a
  value of one of the other integer types (\<^verbatim>\<open>int\<close>, \<^verbatim>\<open>int16\<close>, \<^verbatim>\<open>uint\<close>, \<^verbatim>\<open>uint8\<close>,
  \<^verbatim>\<open>uint16\<close>, \<^verbatim>\<open>uint32\<close>, \<^verbatim>\<open>uint64\<close>) with its type name. Of the shapes no switch
  names, \<open>VStringer\<close> is one whose type implements \<^verbatim>\<open>fmt.Stringer\<close>, with its \<^verbatim>\<open>%T\<close> type
  name and what \<^verbatim>\<open>String()\<close> returns, and \<open>VOther\<close> is one whose type does not, with its
  type name.
\<close>

datatype 'f raw_value =
    VInt64 "64 word"
  | VFloat64 'f
  | VTime "64 word"
  | VBool bool
  | VBytes string
  | VString string
  | VNil
  | VInt8 "8 word"
  | VInt32 "32 word"
  | VNumeric 'f "string option" "string option"
  | VIntKind string int
  | VStringer string string
  | VOther string

text \<open>The type name that \<^verbatim>\<open>%T\<close> prints.\<close>

fun type_name :: "'f raw_value \<Rightarrow> string" where
  "type_name (VInt64 v) = ''int64''"
| "type_name (VFloat64 v) = ''float64''"
| "type_name (VTime v) = ''time.Time''"
| "type_name (VBool v) = ''bool''"
| "type_name (VBytes v) = ''[]uint8''"
| "type_name (VString v) = ''string''"
| "type_name VNil = ''<nil>''"
| "type_name (VInt8 v) = ''int8''"
| "type_name (VInt32 v) = ''int32''"
| "type_name (VNumeric v e s) = ''*pgtype.Numeric''"
| "type_name (VIntKind t v) = t"
| "type_name (VStringer t s) = t"
| "type_name (VOther t) = t"

text \<open>
  What the code takes from the Go standard library: the conversion of an integer to
  \<^verbatim>\<open>float64\<close>, \<^verbatim>\<open>math.NaN()\<close>, \<^verbatim>\<open>strconv.ParseFloat(s, 64)\<close> (\<open>Inl\<close> its error text) and the
  \<^verbatim>\<open>%v\<close> formatting of integers and floats. They are parameters of the model.
\<close>

record 'f stdlib =
  float64_of_int :: "int \<Rightarrow> 'f"
  NaN :: 'f
  ParseFloat :: "string \<Rightarrow> string + 'f"
  format_int :: "int \<Rightarrow> string"
  format_float :: "'f \<Rightarrow> string"

datatype conv_error =
    CouldNotParseBytes string
  | CouldNotParseString string
  | UnknownType string
  | AssignToFailed string

text \<open>\<^verbatim>\<open>ToFloat64\<close> of db.go lines 117-149; the pair is Go's \<^verbatim>\<open>(float64, error)\<close>.\<close>

fun ToFloat64 :: "'f stdlib \<Rightarrow> 'f raw_value \<Rightarrow> 'f \<times> conv_error option" where
  "ToFloat64 lib (VInt64 v) = (float64_of_int lib (sint v), None)"
| "ToFloat64 lib (VFloat64 v) = (v, None)"
| "ToFloat64 lib (VTime v) = (float64_of_int lib (sint v), None)"
| "ToFloat64 lib (VBool v) = (if v then (float64_of_int lib 1, None) else (float64_of_int lib 0, None))"
| "ToFloat64 lib (VBytes v) =
     (case ParseFloat lib v of
        Inl err \<Rightarrow> (NaN lib, Some (CouldNotParseBytes err))
      | Inr result \<Rightarrow> (result, None))"
| "ToFloat64 lib (VString v) =
     (case ParseFloat lib v of
        Inl err \<Rightarrow> (NaN lib, Some (CouldNotParseString err))
      | Inr result \<Rightarrow> (result, None))"
| "ToFloat64 lib VNil = (NaN lib, None)"
| "ToFloat64 lib v = (NaN lib, Some (UnknownType (type_name v)))"

text \<open>
  \<^verbatim>\<open>ToFloat64\<close> of the later revision of the file (lines 333-373), which also accepts
  \<^verbatim>\<open>*pgtype.Numeric\<close>, \<^verbatim>\<open>int8\<close> and \<^verbatim>\<open>int32\<close>.
\<close>

fun ToFloat64_pgx :: "'f stdlib \<Rightarrow> 'f raw_value \<Rightarrow> 'f \<times> conv_error option" where
  "ToFloat64_pgx lib (VNumeric res err s) = (res, map_option AssignToFailed err)"
| "ToFloat64_pgx lib (VInt8 v) = (float64_of_int lib (sint v), None)"
| "ToFloat64_pgx lib (VInt32 v) = (float64_of_int lib (sint v), None)"
| "ToFloat64_pgx lib (VInt64 v) = (float64_of_int lib (sint v), None)"
| "ToFloat64_pgx lib (VFloat64 v) = (v, None)"
| "ToFloat64_pgx lib (VTime v) = (float64_of_int lib (sint v), None)"
| "ToFloat64_pgx lib (VBool v) = (if v then (float64_of_int lib 1, None) else (float64_of_int lib 0, None))"
| "ToFloat64_pgx lib (VBytes v) =
     (case ParseFloat lib v of
        Inl err \<Rightarrow> (NaN lib, Some (CouldNotParseBytes err))
      | Inr result \<Rightarrow> (result, None))"
| "ToFloat64_pgx lib (VString v) =
     (case ParseFloat lib v of
        Inl err \<Rightarrow> (NaN lib, Some (CouldNotParseString err))
      | Inr result \<Rightarrow> (result, None))"
| "ToFloat64_pgx lib VNil = (NaN lib, None)"
| "ToFloat64_pgx lib v = (NaN lib, Some (UnknownType (type_name v)))"

text \<open>\<^verbatim>\<open>ToString\<close> of db.go lines 152-172; the pair is Go's \<^verbatim>\<open>(string, bool)\<close>.\<close>

fun ToString :: "'f stdlib \<Rightarrow> 'f raw_value \<Rightarrow> string \<times> bool" where
  "ToString lib (VInt64 v) = (format_int lib (sint v), True)"
| "ToString lib (VFloat64 v) = (format_float lib v, True)"
| "ToString lib (VTime v) = (format_int lib (sint v), True)"
| "ToString lib (VBool v) = (if v then ''true'' else ''false'', True)"
| "ToString lib VNil = ('''', True)"
| "ToString lib (VBytes v) = (v, True)"
| "ToString lib (VString v) = (v, True)"
| "ToString lib v = ('''', False)"

text \<open>
  \<^verbatim>\<open>ToString\<close> of the later revision of the file (lines 376-397), which also accepts every
  integer type and, in its default case, every \<^verbatim>\<open>fmt.Stringer\<close>.
\<close>

fun ToString_pgx :: "'f stdlib \<Rightarrow> 'f raw_value \<Rightarrow> string \<times> bool" where
  "ToString_pgx lib (VIntKind t v) = (format_int lib v, True)"
| "ToString_pgx lib (VInt8 v) = (format_int lib (sint v), True)"
| "ToString_pgx lib (VInt32 v) = (format_int lib (sint v), True)"
| "ToString_pgx lib (VInt64 v) = (format_int lib (sint v), True)"
| "ToString_pgx lib (VFloat64 v) = (format_float lib v, True)"
| "ToString_pgx lib (VTime v) = (format_int lib (sint v), True)"
| "ToString_pgx lib (VBool v) = (if v then ''true'' else ''false'', True)"
| "ToString_pgx lib VNil = ('''', True)"
| "ToString_pgx lib (VBytes v) = (v, True)"
| "ToString_pgx lib (VString v) = (v, True)"
| "ToString_pgx lib (VNumeric res err (Some str)) = (str, True)"
| "ToString_pgx lib (VNumeric res err None) = ('''', False)"
| "ToString_pgx lib (VStringer t str) = (str, True)"
| "ToString_pgx lib (VOther t) = ('''', False)"

text \<open>A result row: \<^verbatim>\<open>map[string]interface{}\<close>, column name to raw value.\<close>

type_synonym 'f row = "'f raw_value gomap"

section \<open>Executing a query (pkg/db/db.go, Db.Exec)\<close>

text \<open>
  What the SQL driver hands back to \<^verbatim>\<open>Db.Exec\<close>: \<^verbatim>\<open>d.db.Query\<close> fails with a
  \<^verbatim>\<open>*pq.Error\<close> (its code and message) or with an error of another type, or
  \<^verbatim>\<open>rows.Columns\<close> fails, or a \<^verbatim>\<open>rows.Scan\<close> fails, or all rows are read.
\<close>

datatype 'f driver_result =
    QueryPqError string string
  | QueryOtherError string
  | ColumnsError string
  | ScanError string
  | ResultRows "'f row list"

datatype exec_error = ErrQueryTimeout | ExecError string

definition queryCanceled :: string where
  "queryCanceled = ''57014''"

text \<open>\<^verbatim>\<open>strings.Contains\<close>: some suffix of \<open>s\<close> starts with \<open>substr\<close>.\<close>

fun Contains :: "string \<Rightarrow> string \<Rightarrow> bool" where
  "Contains [] substr = (substr = [])"
| "Contains (c # s) substr = (prefix substr (c # s) \<or> Contains s substr)"

text \<open>
  \<^verbatim>\<open>Db.Exec\<close>, lines 51-91, over the driver's answer. \<^verbatim>\<open>pgErr := err.(*pq.Error)\<close> is an
  unchecked type assertion: it panics on an error that is not a \<^verbatim>\<open>*pq.Error\<close>. The text
  of the other errors is the driver's.
\<close>

fun Db_Exec :: "'f driver_result \<Rightarrow> abort + (exec_error + 'f row list)" where
  "Db_Exec (QueryPqError code message) =
     (if code = queryCanceled \<and> Contains message ''statement timeout''
      then Inr (Inl ErrQueryTimeout)
      else Inr (Inl (ExecError message)))"
| "Db_Exec (QueryOtherError e) = Inl TypeAssertion"
| "Db_Exec (ColumnsError e) = Inr (Inl (ExecError e))"
| "Db_Exec (ScanError e) = Inr (Inl (ExecError e))"
| "Db_Exec (ResultRows values) = Inr (Inr values)"

section \<open>Queries and metric definitions (pkg/config/helpers.go)\<close>

datatype ColumnUsage = Discard | Label | Counter | Gauge

record Metric =
  Usage :: ColumnUsage
  Description :: string

text \<open>The zero value of \<^verbatim>\<open>Metric\<close>, which \<^verbatim>\<open>job.Metrics[name]\<close> yields for an unknown name: usage 0 is \<^verbatim>\<open>Discard\<close>.\<close>

definition zero_Metric :: Metric where
  "zero_Metric = \<lparr>Usage = Discard, Description = ''''\<rparr>"

record Query =
  Name :: string
  Metrics :: "Metric gomap"
  VerSQL :: "VerSQL list"
  NameColumn :: string
  ValueColumn :: string

section \<open>The worker (pkg/pgcollector/pgcollector.go)\<close>

text \<open>\<^verbatim>\<open>workerJob\<close> embeds the query and adds the target's labels and version.\<close>

record workerJob = Query +
  dbLabels :: "string gomap"
  pgVersion :: PgVersion

text \<open>
  A metric handed to the metrics library: which constructor was called, the options it was
  given and the value added to it. The library's own checks on these are outside the
  repository and are not modelled.
\<close>

datatype prom_kind = NewCounter | NewGauge

record 'f prom_metric =
  kind :: prom_kind
  Namespace :: string
  MetricName :: string
  Help :: string
  ConstLabels :: "string gomap"
  added :: 'f

text \<open>
  The collector's two counters (\<^verbatim>\<open>uint32\<close>, incremented with \<^verbatim>\<open>atomic.AddUint32\<close>, which
  wraps) and the metrics sent on the result channel so far, oldest first.
\<close>

record 'f PgCollector =
  timeOuts :: "32 word"
  errors :: "32 word"
  metricsCh :: "'f prom_metric list"

definition count_error :: "'f PgCollector \<Rightarrow> 'f PgCollector" where
  "count_error p = p\<lparr>errors := errors p + 1\<rparr>"

definition count_timeout :: "'f PgCollector \<Rightarrow> 'f PgCollector" where
  "count_timeout p = p\<lparr>timeOuts := timeOuts p + 1\<rparr>"

definition send :: "'f prom_metric \<Rightarrow> 'f PgCollector \<Rightarrow> 'f PgCollector" where
  "send m p = p\<lparr>metricsCh := metricsCh p @ [m]\<rparr>"

text \<open>\<^verbatim>\<open>createMetric\<close>, lines 53-86: Go's \<^verbatim>\<open>(nil, err)\<close>, \<^verbatim>\<open>(m, nil)\<close> and \<^verbatim>\<open>(nil, nil)\<close>.\<close>

definition createMetric ::
  "'f stdlib \<Rightarrow> workerJob \<Rightarrow> string \<Rightarrow> string gomap \<Rightarrow> 'f raw_value
     \<Rightarrow> conv_error + 'f prom_metric option" where
  "createMetric lib job name constLabels rawValue =
     (case Usage (index_map zero_Metric (Metrics job) name) of
        Counter \<Rightarrow>
          (case ToFloat64 lib rawValue of
             (val, Some err) \<Rightarrow> Inl err
           | (val, None) \<Rightarrow>
               Inr (Some \<lparr>kind = NewCounter, Namespace = Name job, MetricName = name,
                          Help = Description (index_map zero_Metric (Metrics job) name),
                          ConstLabels = constLabels, added = val\<rparr>))
      | Gauge \<Rightarrow>
          (case ToFloat64 lib rawValue of
             (val, Some err) \<Rightarrow> Inl err
           | (val, None) \<Rightarrow>
               Inr (Some \<lparr>kind = NewGauge, Namespace = Name job, MetricName = name,
                          Help = Description (index_map zero_Metric (Metrics job) name),
                          ConstLabels = constLabels, added = val\<rparr>))
      | _ \<Rightarrow> Inr None)"

text \<open>\<^verbatim>\<open>mergeLabels\<close>, lines 307-318: copy \<open>a\<close> into a fresh map, then copy \<open>b\<close> over it.\<close>

definition mergeLabels :: "string gomap \<Rightarrow> string gomap \<Rightarrow> string gomap" where
  "mergeLabels a b =
     fold (\<lambda>(id, value) res. AList.update id value res) b
       (fold (\<lambda>(id, value) res. AList.update id value res) a [])"

text \<open>Lines 102-108: the names of the columns whose usage is \<^verbatim>\<open>Label\<close>.\<close>

definition label_columns :: "workerJob \<Rightarrow> string list" where
  "label_columns job = map fst (filter (\<lambda>(metricName, metric). Usage metric = Label) (Metrics job))"

text \<open>
  Lines 122-129: the loop over the label columns. A value that does not convert is counted
  as an error and the label is stored all the same, with the empty string \<^verbatim>\<open>ToString\<close>
  returned.
\<close>

fun convert_labels ::
  "'f stdlib \<Rightarrow> 'f row \<Rightarrow> string list \<Rightarrow> string gomap \<Rightarrow> 'f PgCollector
     \<Rightarrow> string gomap \<times> 'f PgCollector" where
  "convert_labels lib row [] labels p = (labels, p)"
| "convert_labels lib row (columnName # rest) labels p =
     (case ToString lib (index_map VNil row columnName) of
        (val, ok) \<Rightarrow>
          convert_labels lib row rest (AList.update columnName val labels)
            (if \<not> ok then count_error p else p))"

text \<open>How the body of the loop over the rows ends: at its end, or with \<^verbatim>\<open>continue jobs\<close>.\<close>

datatype flow = NextRow | ContinueJobs

text \<open>Lines 150-168: column mode, the loop over the columns of one row.\<close>

fun columns_loop ::
  "'f stdlib \<Rightarrow> workerJob \<Rightarrow> string gomap \<Rightarrow> string gomap \<Rightarrow> 'f row \<Rightarrow> 'f PgCollector
     \<Rightarrow> flow \<times> 'f PgCollector" where
  "columns_loop lib job labels constLabels [] p = (NextRow, p)"
| "columns_loop lib job labels constLabels ((colName, colValue) # rest) p =
     (if map_of labels colName \<noteq> None then columns_loop lib job labels constLabels rest p
      else if map_of (Metrics job) colName = None then columns_loop lib job labels constLabels rest p
      else
        (case createMetric lib job colName constLabels colValue of
           Inl err \<Rightarrow> (ContinueJobs, count_error p)
         | Inr None \<Rightarrow> columns_loop lib job labels constLabels rest p
         | Inr (Some m) \<Rightarrow> columns_loop lib job labels constLabels rest (send m p)))"

text \<open>Lines 132-148: name/value mode, one metric named by the row.\<close>

definition name_value ::
  "'f stdlib \<Rightarrow> workerJob \<Rightarrow> string gomap \<Rightarrow> 'f row \<Rightarrow> 'f PgCollector \<Rightarrow> flow \<times> 'f PgCollector" where
  "name_value lib job constLabels row p =
     (case ToString lib (index_map VNil row (NameColumn job)) of
        (metricName, ok) \<Rightarrow>
          if \<not> ok then (ContinueJobs, count_error p)
          else
            (case createMetric lib job metricName constLabels (index_map VNil row (ValueColumn job)) of
               Inl err \<Rightarrow> (ContinueJobs, count_error p)
             | Inr None \<Rightarrow> (NextRow, p)
             | Inr (Some m) \<Rightarrow> (NextRow, send m p)))"

text \<open>Lines 120-169: the body of the loop over the rows.\<close>

definition process_row ::
  "'f stdlib \<Rightarrow> workerJob \<Rightarrow> string list \<Rightarrow> 'f row \<Rightarrow> 'f PgCollector \<Rightarrow> flow \<times> 'f PgCollector" where
  "process_row lib job labelColumns row p =
     (case convert_labels lib row labelColumns [] p of
        (labels, p') \<Rightarrow>
          if NameColumn job \<noteq> ''''
          then name_value lib job (mergeLabels (dbLabels job) labels) row p'
          else columns_loop lib job labels (mergeLabels (dbLabels job) labels) row p')"

text \<open>Line 119: the loop over the rows; \<^verbatim>\<open>continue jobs\<close> leaves it.\<close>

fun rows_loop ::
  "'f stdlib \<Rightarrow> workerJob \<Rightarrow> string list \<Rightarrow> 'f row list \<Rightarrow> 'f PgCollector \<Rightarrow> 'f PgCollector" where
  "rows_loop lib job labelColumns [] p = p"
| "rows_loop lib job labelColumns (row # rest) p =
     (case process_row lib job labelColumns row p of
        (ContinueJobs, p') \<Rightarrow> p'
      | (NextRow, p') \<Rightarrow> rows_loop lib job labelColumns rest p')"

text \<open>
  Lines 95-170: the body of the loop over the jobs, for a connection whose \<^verbatim>\<open>Exec\<close> is
  \<open>exec\<close>. A panic in \<^verbatim>\<open>VerSQLs.Query\<close> or in \<^verbatim>\<open>Exec\<close> is not recovered.
\<close>

definition run_job ::
  "'f stdlib \<Rightarrow> (string \<Rightarrow> abort + (exec_error + 'f row list)) \<Rightarrow> workerJob \<Rightarrow> 'f PgCollector
     \<Rightarrow> abort + 'f PgCollector" where
  "run_job lib exec job p =
     (case VerSQLs_Query (VerSQL job) (pgVersion job) of
        Inl a \<Rightarrow> Inl a
      | Inr sql \<Rightarrow>
          if sql = '''' then Inr (count_error p)
          else
            (case exec sql of
               Inl a \<Rightarrow> Inl a
             | Inr (Inl err) \<Rightarrow>
                 Inr (count_error (if err = ErrQueryTimeout then count_timeout p else p))
             | Inr (Inr rows) \<Rightarrow> Inr (rows_loop lib job (label_columns job) rows p)))"

text \<open>Lines 88-172: one worker, given the jobs it receives from the channel, in order.\<close>

fun worker ::
  "'f stdlib \<Rightarrow> (string \<Rightarrow> abort + (exec_error + 'f row list)) \<Rightarrow> workerJob list \<Rightarrow> 'f PgCollector
     \<Rightarrow> abort + 'f PgCollector" where
  "worker lib exec [] p = Inr p"
| "worker lib exec (job # jobs) p =
     (case run_job lib exec job p of
        Inl a \<Rightarrow> Inl a
      | Inr p' \<Rightarrow> worker lib exec jobs p')"

section \<open>Targets and connections (pkg/config/db.go, pkg/db/db.go)\<close>

text \<open>
  The fields of \<^verbatim>\<open>DbConfig\<close> that the collector reads. The credentials, database name and
  TLS mode only enter the connection string, which the model does not inspect.
\<close>

record DbConfig =
  Host :: string
  Port :: int
  Labels :: "string gomap"
  Workers :: int
  SkipVersionDetection :: bool
  StatementTimeout :: int
  queries :: "Query list"

definition zero_DbConfig :: DbConfig where
  "zero_DbConfig =
     \<lparr>Host = '''', Port = 0, Labels = [], Workers = 0, SkipVersionDetection = False,
      StatementTimeout = 0, queries = []\<rparr>"

text \<open>
  \<^verbatim>\<open>Config.dbs\<close> is a map from target name to \<^verbatim>\<open>DbConfig\<close>. \<^verbatim>\<open>DbList\<close> ranges over it;
  \<^verbatim>\<open>Db\<close> indexes it.
\<close>

type_synonym Config = "DbConfig gomap"

definition DbList :: "Config \<Rightarrow> string list" where
  "DbList c = map fst c"

definition Db :: "Config \<Rightarrow> string \<Rightarrow> DbConfig" where
  "Db c dbName = index_map zero_DbConfig c dbName"

text \<open>
  \<^verbatim>\<open>InstanceName\<close> formats host and port as \<^verbatim>\<open>"%s:%d"\<close>. The port is the text after the last
  colon, so two instance names are equal exactly when host and port are; the pair stands
  for the string.
\<close>

definition InstanceName :: "DbConfig \<Rightarrow> string \<times> int" where
  "InstanceName d = (Host d, Port d)"

text \<open>
  \<^verbatim>\<open>DbInterface\<close>: an open connection, given by what each of its methods answers.
  \<^verbatim>\<open>Exec\<close> may panic (see \<^const>\<open>Db_Exec\<close>).
\<close>

record 'f DbInterface =
  SetStatementTimeout :: "int \<Rightarrow> string option"
  Exec :: "string \<Rightarrow> abort + (exec_error + 'f row list)"
  PgVersion :: "string + PgVersion"
  Close :: "string option"

text \<open>
  What lies outside the process during one collection cycle: the outcome of the \<open>i\<close>-th
  \<^verbatim>\<open>db.New\<close> for a target (target names are map keys, so name and index identify the call),
  which worker of a target receives its \<open>j\<close>-th job from the shared channel, and the time the
  cycle took, in seconds.
\<close>

record 'f world =
  db_New :: "string \<Rightarrow> nat \<Rightarrow> string + 'f DbInterface"
  receiver :: "string \<Rightarrow> nat \<Rightarrow> nat"
  elapsed :: 'f

section \<open>The collection cycle (pkg/pgcollector/pgcollector.go, Collect)\<close>

text \<open>
  The state of one call of \<^verbatim>\<open>Collect\<close>: the collector with the metrics sent so far, the
  versions cached per instance, and the connections stored in \<^verbatim>\<open>dbPool\<close>.

  The workers run concurrently with the loop over the targets. They share nothing but the
  two atomic counters and the result channel, so the model runs every job when it is sent:
  the counters it reaches are those of every schedule, and the order of \<open>metricsCh\<close> is that
  of one schedule.
\<close>

record 'f cycle =
  collector :: "'f PgCollector"
  pgVersions :: "((string \<times> int) \<times> PgVersion) list"
  dbPool :: "(string \<times> 'f DbInterface list) list"

definition cycle_error :: "'f cycle \<Rightarrow> 'f cycle" where
  "cycle_error s = s\<lparr>collector := count_error (collector s)\<rparr>"

text \<open>
  Lines 229-241: the version of the target's instance is looked up in the cache, else taken
  as \<^verbatim>\<open>NoVersion\<close> when detection is skipped, else asked of the connection. \<open>None\<close> is the
  failure of \<^verbatim>\<open>conn.PgVersion()\<close>.
\<close>

definition detect_version ::
  "DbConfig \<Rightarrow> 'f DbInterface \<Rightarrow> ((string \<times> int) \<times> PgVersion) list
     \<Rightarrow> ((string \<times> int) \<times> PgVersion) list option" where
  "detect_version dbConf conn versions =
     (if map_of versions (InstanceName dbConf) \<noteq> None then Some versions
      else if SkipVersionDetection dbConf
      then Some (AList.update (InstanceName dbConf) NoVersion versions)
      else
        (case PgVersion conn of
           Inl err \<Rightarrow> None
         | Inr pgVer \<Rightarrow> Some (AList.update (InstanceName dbConf) pgVer versions)))"

text \<open>
  Lines 221-255: the loop \<^verbatim>\<open>for i := 0; i < workersCnt; i++\<close>, with \<open>n\<close> iterations left and
  \<open>conns\<close> the connections whose worker has been started. The first component of the result
  tells whether the loop was left by \<^verbatim>\<open>break dbLoop\<close>.
\<close>

fun connect_loop ::
  "'f world \<Rightarrow> string \<Rightarrow> DbConfig \<Rightarrow> nat \<Rightarrow> nat \<Rightarrow> 'f DbInterface list \<Rightarrow> 'f cycle
     \<Rightarrow> bool \<times> 'f DbInterface list \<times> 'f cycle" where
  "connect_loop w dbName dbConf i 0 conns s = (False, conns, s)"
| "connect_loop w dbName dbConf i (Suc n) conns s =
     (case db_New w dbName i of
        Inl err \<Rightarrow> (True, conns, cycle_error s)
      | Inr conn \<Rightarrow>
          (case detect_version dbConf conn (pgVersions s) of
             None \<Rightarrow> (True, conns, cycle_error s)
           | Some versions \<Rightarrow>
               if StatementTimeout dbConf \<noteq> 0
                  \<and> SetStatementTimeout conn (StatementTimeout dbConf) \<noteq> None
               then (True, conns, cycle_error (s\<lparr>pgVersions := versions\<rparr>))
               else connect_loop w dbName dbConf (Suc i) n (conns @ [conn])
                      (s\<lparr>pgVersions := versions\<rparr>)))"

text \<open>Lines 258-262: the job made of a query.\<close>

definition make_job :: "string gomap \<Rightarrow> PgVersion \<Rightarrow> Query \<Rightarrow> workerJob" where
  "make_job labels version query =
     \<lparr>Name = Name query, Metrics = Metrics query, VerSQL = VerSQL query,
      NameColumn = NameColumn query, ValueColumn = ValueColumn query,
      dbLabels = labels, pgVersion = version\<rparr>"

text \<open>
  The jobs of a target, each run by the worker that receives it; \<open>j\<close> is the number of jobs
  sent before. An unrecovered panic in a worker ends the process.
\<close>

fun run_jobs ::
  "'f stdlib \<Rightarrow> 'f world \<Rightarrow> string \<Rightarrow> 'f DbInterface list \<Rightarrow> nat \<Rightarrow> workerJob list
     \<Rightarrow> 'f PgCollector \<Rightarrow> abort + 'f PgCollector" where
  "run_jobs lib w dbName conns j [] p = Inr p"
| "run_jobs lib w dbName conns j (job # jobs) p =
     (case run_job lib (Exec (conns ! (receiver w dbName j mod length conns))) job p of
        Inl a \<Rightarrow> Inl a
      | Inr p' \<Rightarrow> run_jobs lib w dbName conns (Suc j) jobs p')"

text \<open>
  Lines 257-264: every query of the target is sent as a job, then the channel is closed.
  With no worker started the channel has capacity 0 and no receiver, so the first send never
  returns.
\<close>

definition dispatch ::
  "'f stdlib \<Rightarrow> 'f world \<Rightarrow> string \<Rightarrow> DbConfig \<Rightarrow> 'f DbInterface list \<Rightarrow> 'f cycle
     \<Rightarrow> abort + 'f cycle" where
  "dispatch lib w dbName dbConf conns s =
     (if queries dbConf = [] then Inr s
      else if conns = [] then Inl BlockedForever
      else
        (case run_jobs lib w dbName conns 0
                (map (make_job (Labels dbConf) (index_map 0 (pgVersions s) (InstanceName dbConf)))
                   (queries dbConf))
                (collector s) of
           Inl a \<Rightarrow> Inl a
         | Inr p \<Rightarrow> Inr (s\<lparr>collector := p\<rparr>)))"

text \<open>
  Lines 213-265: the loop labelled \<^verbatim>\<open>dbLoop\<close> over the target names. A negative worker
  count makes \<^verbatim>\<open>make\<close> panic. \<^verbatim>\<open>break dbLoop\<close> leaves the loop over the targets: the
  targets not yet visited are not visited, and the channel of the current target is not
  closed, so that \<^verbatim>\<open>wg.Wait()\<close> never returns when a worker of that target was started.
\<close>

fun dbLoop ::
  "'f stdlib \<Rightarrow> 'f world \<Rightarrow> Config \<Rightarrow> string list \<Rightarrow> 'f cycle \<Rightarrow> abort + 'f cycle" where
  "dbLoop lib w c [] s = Inr s"
| "dbLoop lib w c (dbName # rest) s =
     (if Workers (Db c dbName) < 0 then Inl NegativeLen
      else
        (case connect_loop w dbName (Db c dbName) 0 (nat (Workers (Db c dbName))) [] s of
           (True, conns, s') \<Rightarrow>
             if conns = [] then Inr (s'\<lparr>dbPool := AList.update dbName conns (dbPool s')\<rparr>)
             else Inl BlockedForever
         | (False, conns, s') \<Rightarrow>
             (case dispatch lib w dbName (Db c dbName) conns
                     (s'\<lparr>dbPool := AList.update dbName conns (dbPool s')\<rparr>) of
                Inl a \<Rightarrow> Inl a
              | Inr s'' \<Rightarrow> dbLoop lib w c rest s'')))"

text \<open>
  Lines 178-202, the deferred function: the three internal metrics, sent when \<^verbatim>\<open>Collect\<close>
  returns.
\<close>

definition internal_metric :: "prom_kind \<Rightarrow> string \<Rightarrow> string \<Rightarrow> 'f \<Rightarrow> 'f prom_metric" where
  "internal_metric k name description v =
     \<lparr>kind = k, Namespace = ''pg_exporter'', MetricName = name, Help = description,
      ConstLabels = [], added = v\<rparr>"

definition report :: "'f stdlib \<Rightarrow> 'f \<Rightarrow> 'f PgCollector \<Rightarrow> 'f PgCollector" where
  "report lib seconds p =
     p\<lparr>metricsCh := metricsCh p @
        [internal_metric NewGauge ''last_scrape_duration_seconds''
           ''Duration of the last scrape of metrics'' seconds,
         internal_metric NewCounter ''last_scrape_timeouts''
           ''Number of timed out statements'' (float64_of_int lib (uint (timeOuts p))),
         internal_metric NewCounter ''last_scrape_errors''
           ''Number of errors during scraping'' (float64_of_int lib (uint (errors p)))]\<rparr>"

text \<open>Lines 268-278: a connection that fails to close ends the process through \<^verbatim>\<open>log.Fatalf\<close>.\<close>

definition close_fails :: "(string \<times> 'f DbInterface list) list \<Rightarrow> bool" where
  "close_fails pool = list_ex (\<lambda>(dbName, dbs). list_ex (\<lambda>dbConn. Close dbConn \<noteq> None) dbs) pool"

definition new_cycle :: "'f cycle" where
  "new_cycle =
     \<lparr>collector = \<lparr>timeOuts = 0, errors = 0, metricsCh = []\<rparr>, pgVersions = [], dbPool = []\<rparr>"

text \<open>
  \<^verbatim>\<open>Collect\<close>, lines 175-279, between taking and releasing the lock: the counters are reset,
  the targets are visited, the workers are awaited, the connections are closed, the internal
  metrics are sent. The result is the collector with the metrics sent during the call.
\<close>

definition Collect :: "'f stdlib \<Rightarrow> 'f world \<Rightarrow> Config \<Rightarrow> abort + 'f PgCollector" where
  "Collect lib w c =
     (case dbLoop lib w c (DbList c) new_cycle of
        Inl a \<Rightarrow> Inl a
      | Inr s \<Rightarrow>
          if close_fails (dbPool s) then Inl FatalExit
          else Inr (report lib (elapsed w) (collector s)))"

section \<open>The collection cycle of the later revision (the second pgcollector.go, under pkg/db/db.go)\<close>

text \<open>
  In this revision a connection knows its version (\<^verbatim>\<open>PgVersion()\<close> cannot fail), the job
  carries no version, a failure while connecting leaves the inner loop only, and jobs are
  sent only when the pool is not empty.
\<close>

record 'f DbInterface_pgx =
  SetStatementTimeout_pgx :: "int \<Rightarrow> string option"
  Exec_pgx :: "string \<Rightarrow> abort + (exec_error + 'f row list)"
  PgVersion_pgx :: PgVersion
  Close_pgx :: "string option"

record 'f world_pgx =
  db_New_pgx :: "string \<Rightarrow> nat \<Rightarrow> string + 'f DbInterface_pgx"
  receiver_pgx :: "string \<Rightarrow> nat \<Rightarrow> nat"
  elapsed_pgx :: 'f

text \<open>Lines 612-628: the loop that fills the pool; \<^verbatim>\<open>break\<close> ends this loop only.\<close>

fun connect_loop_pgx ::
  "'f world_pgx \<Rightarrow> string \<Rightarrow> DbConfig \<Rightarrow> nat \<Rightarrow> nat \<Rightarrow> 'f DbInterface_pgx list \<Rightarrow> 'f PgCollector
     \<Rightarrow> 'f DbInterface_pgx list \<times> 'f PgCollector" where
  "connect_loop_pgx w dbName dbConf i 0 conns p = (conns, p)"
| "connect_loop_pgx w dbName dbConf i (Suc n) conns p =
     (case db_New_pgx w dbName i of
        Inl err \<Rightarrow> (conns, count_error p)
      | Inr conn \<Rightarrow>
          if StatementTimeout dbConf \<noteq> 0
             \<and> SetStatementTimeout_pgx conn (StatementTimeout dbConf) \<noteq> None
          then (conns, count_error p)
          else connect_loop_pgx w dbName dbConf (Suc i) n (conns @ [conn]) p)"

text \<open>
  The worker of the later revision, lines 449-567. Its text is that of the earlier one, but
  it calls the later \<^verbatim>\<open>ToFloat64\<close> and \<^verbatim>\<open>ToString\<close>, and it asks the connection for the
  version instead of reading it from the job.
\<close>

record workerJob_pgx = Query +
  dbLabels_pgx :: "string gomap"

definition createMetric_pgx ::
  "'f stdlib \<Rightarrow> workerJob_pgx \<Rightarrow> string \<Rightarrow> string gomap \<Rightarrow> 'f raw_value
     \<Rightarrow> conv_error + 'f prom_metric option" where
  "createMetric_pgx lib job name constLabels rawValue =
     (case Usage (index_map zero_Metric (Metrics job) name) of
        Counter \<Rightarrow>
          (case ToFloat64_pgx lib rawValue of
             (val, Some err) \<Rightarrow> Inl err
           | (val, None) \<Rightarrow>
               Inr (Some \<lparr>kind = NewCounter, Namespace = Name job, MetricName = name,
                          Help = Description (index_map zero_Metric (Metrics job) name),
                          ConstLabels = constLabels, added = val\<rparr>))
      | Gauge \<Rightarrow>
          (case ToFloat64_pgx lib rawValue of
             (val, Some err) \<Rightarrow> Inl err
           | (val, None) \<Rightarrow>
               Inr (Some \<lparr>kind = NewGauge, Namespace = Name job, MetricName = name,
                          Help = Description (index_map zero_Metric (Metrics job) name),
                          ConstLabels = constLabels, added = val\<rparr>))
      | _ \<Rightarrow> Inr None)"

definition label_columns_pgx :: "workerJob_pgx \<Rightarrow> string list" where
  "label_columns_pgx job =
     map fst (filter (\<lambda>(metricName, metric). Usage metric = Label) (Metrics job))"

fun convert_labels_pgx ::
  "'f stdlib \<Rightarrow> 'f row \<Rightarrow> string list \<Rightarrow> string gomap \<Rightarrow> 'f PgCollector
     \<Rightarrow> string gomap \<times> 'f PgCollector" where
  "convert_labels_pgx lib row [] labels p = (labels, p)"
| "convert_labels_pgx lib row (columnName # rest) labels p =
     (case ToString_pgx lib (index_map VNil row columnName) of
        (val, ok) \<Rightarrow>
          convert_labels_pgx lib row rest (AList.update columnName val labels)
            (if \<not> ok then count_error p else p))"

fun columns_loop_pgx ::
  "'f stdlib \<Rightarrow> workerJob_pgx \<Rightarrow> string gomap \<Rightarrow> string gomap \<Rightarrow> 'f row \<Rightarrow> 'f PgCollector
     \<Rightarrow> flow \<times> 'f PgCollector" where
  "columns_loop_pgx lib job labels constLabels [] p = (NextRow, p)"
| "columns_loop_pgx lib job labels constLabels ((colName, colValue) # rest) p =
     (if map_of labels colName \<noteq> None then columns_loop_pgx lib job labels constLabels rest p
      else if map_of (Metrics job) colName = None
      then columns_loop_pgx lib job labels constLabels rest p
      else
        (case createMetric_pgx lib job colName constLabels colValue of
           Inl err \<Rightarrow> (ContinueJobs, count_error p)
         | Inr None \<Rightarrow> columns_loop_pgx lib job labels constLabels rest p
         | Inr (Some m) \<Rightarrow> columns_loop_pgx lib job labels constLabels rest (send m p)))"

definition name_value_pgx ::
  "'f stdlib \<Rightarrow> workerJob_pgx \<Rightarrow> string gomap \<Rightarrow> 'f row \<Rightarrow> 'f PgCollector
     \<Rightarrow> flow \<times> 'f PgCollector" where
  "name_value_pgx lib job constLabels row p =
     (case ToString_pgx lib (index_map VNil row (NameColumn job)) of
        (metricName, ok) \<Rightarrow>
          if \<not> ok then (ContinueJobs, count_error p)
          else
            (case createMetric_pgx lib job metricName constLabels
                    (index_map VNil row (ValueColumn job)) of
               Inl err \<Rightarrow> (ContinueJobs, count_error p)
             | Inr None \<Rightarrow> (NextRow, p)
             | Inr (Some m) \<Rightarrow> (NextRow, send m p)))"

definition process_row_pgx ::
  "'f stdlib \<Rightarrow> workerJob_pgx \<Rightarrow> string list \<Rightarrow> 'f row \<Rightarrow> 'f PgCollector
     \<Rightarrow> flow \<times> 'f PgCollector" where
  "process_row_pgx lib job labelColumns row p =
     (case convert_labels_pgx lib row labelColumns [] p of
        (labels, p') \<Rightarrow>
          if NameColumn job \<noteq> ''''
          then name_value_pgx lib job (mergeLabels (dbLabels_pgx job) labels) row p'
          else columns_loop_pgx lib job labels (mergeLabels (dbLabels_pgx job) labels) row p')"

fun rows_loop_pgx ::
  "'f stdlib \<Rightarrow> workerJob_pgx \<Rightarrow> string list \<Rightarrow> 'f row list \<Rightarrow> 'f PgCollector
     \<Rightarrow> 'f PgCollector" where
  "rows_loop_pgx lib job labelColumns [] p = p"
| "rows_loop_pgx lib job labelColumns (row # rest) p =
     (case process_row_pgx lib job labelColumns row p of
        (ContinueJobs, p') \<Rightarrow> p'
      | (NextRow, p') \<Rightarrow> rows_loop_pgx lib job labelColumns rest p')"

definition run_job_pgx ::
  "'f stdlib \<Rightarrow> 'f DbInterface_pgx \<Rightarrow> workerJob_pgx \<Rightarrow> 'f PgCollector
     \<Rightarrow> abort + 'f PgCollector" where
  "run_job_pgx lib conn job p =
     (case VerSQLs_Query (VerSQL job) (PgVersion_pgx conn) of
        Inl a \<Rightarrow> Inl a
      | Inr sql \<Rightarrow>
          if sql = '''' then Inr (count_error p)
          else
            (case Exec_pgx conn sql of
               Inl a \<Rightarrow> Inl a
             | Inr (Inl err) \<Rightarrow>
                 Inr (count_error (if err = ErrQueryTimeout then count_timeout p else p))
             | Inr (Inr rows) \<Rightarrow> Inr (rows_loop_pgx lib job (label_columns_pgx job) rows p)))"

text \<open>Lines 638-641: the job made of a query.\<close>

definition make_job_pgx :: "string gomap \<Rightarrow> Query \<Rightarrow> workerJob_pgx" where
  "make_job_pgx labels query =
     \<lparr>Name = Name query, Metrics = Metrics query, VerSQL = VerSQL query,
      NameColumn = NameColumn query, ValueColumn = ValueColumn query,
      dbLabels_pgx = labels\<rparr>"

text \<open>Lines 636-643: the queries of a target, each run by the worker that receives it.\<close>

fun run_jobs_pgx ::
  "'f stdlib \<Rightarrow> 'f world_pgx \<Rightarrow> string \<Rightarrow> DbConfig \<Rightarrow> 'f DbInterface_pgx list \<Rightarrow> nat \<Rightarrow> Query list
     \<Rightarrow> 'f PgCollector \<Rightarrow> abort + 'f PgCollector" where
  "run_jobs_pgx lib w dbName dbConf conns j [] p = Inr p"
| "run_jobs_pgx lib w dbName dbConf conns j (query # rest) p =
     (case run_job_pgx lib (conns ! (receiver_pgx w dbName j mod length conns))
             (make_job_pgx (Labels dbConf) query) p of
        Inl a \<Rightarrow> Inl a
      | Inr p' \<Rightarrow> run_jobs_pgx lib w dbName dbConf conns (Suc j) rest p')"

text \<open>Lines 607-645: the body of the loop over the targets.\<close>

definition target_pgx ::
  "'f stdlib \<Rightarrow> 'f world_pgx \<Rightarrow> string \<Rightarrow> DbConfig \<Rightarrow> 'f PgCollector
     \<Rightarrow> abort + ('f DbInterface_pgx list \<times> 'f PgCollector)" where
  "target_pgx lib w dbName dbConf p =
     (case connect_loop_pgx w dbName dbConf 0 (nat (Workers dbConf)) [] p of
        (conns, p') \<Rightarrow>
          if conns = [] then Inr (conns, p')
          else
            (case run_jobs_pgx lib w dbName dbConf conns 0 (queries dbConf) p' of
               Inl a \<Rightarrow> Inl a
             | Inr p'' \<Rightarrow> Inr (conns, p'')))"

fun dbLoop_pgx ::
  "'f stdlib \<Rightarrow> 'f world_pgx \<Rightarrow> Config \<Rightarrow> string list
     \<Rightarrow> (string \<times> 'f DbInterface_pgx list) list \<times> 'f PgCollector
     \<Rightarrow> abort + ((string \<times> 'f DbInterface_pgx list) list \<times> 'f PgCollector)" where
  "dbLoop_pgx lib w c [] s = Inr s"
| "dbLoop_pgx lib w c (dbName # rest) (pool, p) =
     (case target_pgx lib w dbName (Db c dbName) p of
        Inl a \<Rightarrow> Inl a
      | Inr (conns, p') \<Rightarrow> dbLoop_pgx lib w c rest (AList.update dbName conns pool, p'))"

definition close_fails_pgx :: "(string \<times> 'f DbInterface_pgx list) list \<Rightarrow> bool" where
  "close_fails_pgx pool =
     list_ex (\<lambda>(dbName, dbs). list_ex (\<lambda>dbConn. Close_pgx dbConn \<noteq> None) dbs) pool"

text \<open>\<^verbatim>\<open>Collect\<close> of the later revision, lines 570-659.\<close>

definition Collect_pgx :: "'f stdlib \<Rightarrow> 'f world_pgx \<Rightarrow> Config \<Rightarrow> abort + 'f PgCollector" where
  "Collect_pgx lib w c =
     (case dbLoop_pgx lib w c (DbList c) ([], \<lparr>timeOuts = 0, errors = 0, metricsCh = []\<rparr>) of
        Inl a \<Rightarrow> Inl a
      | Inr (pool, p) \<Rightarrow>
          if close_fails_pgx pool then Inl FatalExit
          else Inr (report lib (elapsed_pgx w) p))"

section \<open>Notions used to state the properties\<close>

text \<open>How many of the label columns of a row hold a value that \<^const>\<open>ToString\<close> does not convert.\<close>

definition failed_labels :: "'f stdlib \<Rightarrow> 'f row \<Rightarrow> string list \<Rightarrow> nat" where
  "failed_labels lib row cols =
     length (filter (\<lambda>c. \<not> snd (ToString lib (index_map VNil row c))) cols)"

text \<open>The shapes the type switch of \<^const>\<open>ToFloat64\<close> names, and those of \<^const>\<open>ToFloat64_pgx\<close>.\<close>

fun named_shape :: "'f raw_value \<Rightarrow> bool" where
  "named_shape (VInt64 v) = True"
| "named_shape (VFloat64 v) = True"
| "named_shape (VTime v) = True"
| "named_shape (VBool v) = True"
| "named_shape (VBytes v) = True"
| "named_shape (VString v) = True"
| "named_shape VNil = True"
| "named_shape v = False"

fun named_shape_pgx :: "'f raw_value \<Rightarrow> bool" where
  "named_shape_pgx (VIntKind t v) = False"
| "named_shape_pgx (VStringer t s) = False"
| "named_shape_pgx (VOther t) = False"
| "named_shape_pgx v = True"

section \<open>Fixtures for evaluating the model\<close>

text \<open>
  A stand-in for the standard library. A float is a rational number, or \<open>None\<close> for NaN.
  \<^verbatim>\<open>ParseFloat\<close> reads the plain decimal literals, an optional minus sign, digits and an
  optional point with digits, to their exact value and rejects every other text; the
  examples use literals whose value \<^verbatim>\<open>float64\<close> represents exactly. Integers print in
  decimal; no example prints a float, and the stand-in prints a question mark for it.
\<close>

definition digit_of :: "char \<Rightarrow> nat option" where
  "digit_of c =
     map_of [(CHR ''0'', 0), (CHR ''1'', 1), (CHR ''2'', 2), (CHR ''3'', 3), (CHR ''4'', 4),
             (CHR ''5'', 5), (CHR ''6'', 6), (CHR ''7'', 7), (CHR ''8'', 8), (CHR ''9'', 9)] c"

fun digits_value :: "string \<Rightarrow> nat \<Rightarrow> nat option" where
  "digits_value [] acc = Some acc"
| "digits_value (c # cs) acc =
     (case digit_of c of None \<Rightarrow> None | Some d \<Rightarrow> digits_value cs (10 * acc + d))"

definition parse_decimal :: "string \<Rightarrow> string + rat option" where
  "parse_decimal s =
     (let negative = (s \<noteq> [] \<and> hd s = CHR ''-'');
          body = (if negative then tl s else s);
          whole = takeWhile (\<lambda>c. c \<noteq> CHR ''.'') body;
          fraction = drop 1 (dropWhile (\<lambda>c. c \<noteq> CHR ''.'') body)
      in if whole = [] \<and> fraction = [] then Inl ''invalid syntax''
         else
           (case (digits_value whole 0, digits_value fraction 0) of
              (Some w, Some f) \<Rightarrow>
                Inr (Some ((if negative then - 1 else 1)
                           * (of_nat w + of_nat f / 10 ^ length fraction)))
            | _ \<Rightarrow> Inl ''invalid syntax''))"

fun decimal :: "nat \<Rightarrow> string" where
  "decimal n =
     (if n < 10 then [''0123456789'' ! n]
      else decimal (n div 10) @ [''0123456789'' ! (n mod 10)])"

declare decimal.simps [simp del]

definition test_lib :: "rat option stdlib" where
  "test_lib =
     \<lparr>float64_of_int = (\<lambda>i. Some (of_int i)),
      NaN = None,
      ParseFloat = parse_decimal,
      format_int = (\<lambda>i. if i < 0 then CHR ''-'' # decimal (nat (- i)) else decimal (nat i)),
      format_float = (\<lambda>x. ''?'')\<rparr>"

definition p0 :: "rat option PgCollector" where
  "p0 = \<lparr>timeOuts = 0, errors = 0, metricsCh = []\<rparr>"

text \<open>A query in column mode and one in name/value mode, after the README's samples.\<close>

definition slots_job :: workerJob where
  "slots_job =
     \<lparr>Name = ''pg_slots'',
      Metrics = [(''slot_name'', \<lparr>Usage = Label, Description = ''Slot name''\<rparr>),
                 (''current_lag_bytes'', \<lparr>Usage = Gauge, Description = ''Lag in bytes''\<rparr>),
                 (''restarts'', \<lparr>Usage = Counter, Description = ''Restarts''\<rparr>)],
      VerSQL = [\<lparr>SQL = ''select * from pg_replication_slots'', MinVer = 0, MaxVer = 0\<rparr>],
      NameColumn = '''', ValueColumn = '''',
      dbLabels = [(''env'', ''prod'')], pgVersion = 100500\<rparr>"

definition settings_job :: workerJob where
  "settings_job =
     \<lparr>Name = ''pg_settings'',
      Metrics = [(''pending_restart'', \<lparr>Usage = Label, Description = ''Needs a restart''\<rparr>),
                 (''work_mem'', \<lparr>Usage = Gauge, Description = ''Work memory''\<rparr>)],
      VerSQL = [\<lparr>SQL = ''select name, setting from pg_settings'', MinVer = 0, MaxVer = 0\<rparr>],
      NameColumn = ''name'', ValueColumn = ''setting'',
      dbLabels = [(''env'', ''prod'')], pgVersion = 100500\<rparr>"

text \<open>Rows: a label that does not convert; a known name; a name that does not convert; an unknown name.\<close>

definition slot_row_bad_label :: "rat option row" where
  "slot_row_bad_label = [(''slot_name'', VOther ''float32''), (''current_lag_bytes'', VInt64 7)]"

definition slot_row_bad_value :: "rat option row" where
  "slot_row_bad_value =
     [(''slot_name'', VString ''s1''), (''current_lag_bytes'', VString ''n/a''), (''restarts'', VInt64 3)]"

definition slot_row_ok :: "rat option row" where
  "slot_row_ok = [(''slot_name'', VString ''s2''), (''current_lag_bytes'', VInt64 7)]"

definition setting_row_ok :: "rat option row" where
  "setting_row_ok =
     [(''name'', VString ''work_mem''), (''setting'', VString ''4096''),
      (''pending_restart'', VOther ''float32'')]"

definition setting_row_bad_name :: "rat option row" where
  "setting_row_bad_name = [(''name'', VOther ''float32''), (''setting'', VString ''100'')]"

definition setting_row_unknown :: "rat option row" where
  "setting_row_unknown = [(''name'', VString ''max_connections''), (''setting'', VString ''100'')]"

definition setting_row_unknown_bad_label :: "rat option row" where
  "setting_row_unknown_bad_label =
     [(''name'', VString ''max_connections''), (''setting'', VString ''100''),
      (''pending_restart'', VOther ''float32'')]"

text \<open>
  Two targets with one worker and one query each, and a world in which target "a" cannot be
  reached while target "b" answers its query with one row.
\<close>

definition slots_query :: Query where
  "slots_query =
     \<lparr>Name = ''pg_slots'',
      Metrics = [(''slot_name'', \<lparr>Usage = Label, Description = ''Slot name''\<rparr>),
                 (''current_lag_bytes'', \<lparr>Usage = Gauge, Description = ''Lag in bytes''\<rparr>)],
      VerSQL = [\<lparr>SQL = ''select * from pg_replication_slots'', MinVer = 0, MaxVer = 0\<rparr>],
      NameColumn = '''', ValueColumn = ''''\<rparr>"

definition target_conf :: "string \<Rightarrow> int \<Rightarrow> DbConfig" where
  "target_conf host n =
     \<lparr>Host = host, Port = 5432, Labels = [(''env'', ''prod'')], Workers = n,
      SkipVersionDetection = False, StatementTimeout = 0, queries = [slots_query]\<rparr>"

definition two_targets :: Config where
  "two_targets = [(''a'', target_conf ''db-a'' 1), (''b'', target_conf ''db-b'' 1)]"

definition two_targets_two_workers :: Config where
  "two_targets_two_workers = [(''a'', target_conf ''db-a'' 2), (''b'', target_conf ''db-b'' 1)]"

definition healthy_conn :: "rat option DbInterface" where
  "healthy_conn =
     \<lparr>SetStatementTimeout = (\<lambda>d. None),
      Exec = (\<lambda>sql. Inr (Inr [slot_row_ok])),
      PgVersion = Inr 100500,
      Close = None\<rparr>"

definition world_a_down :: "rat option world" where
  "world_a_down =
     \<lparr>db_New = (\<lambda>dbName i. if dbName = ''a'' then Inl ''could not ping db'' else Inr healthy_conn),
      receiver = (\<lambda>dbName j. j),
      elapsed = Some 0\<rparr>"

definition world_a_second_down :: "rat option world" where
  "world_a_second_down =
     \<lparr>db_New = (\<lambda>dbName i. if dbName = ''a'' \<and> i = 1 then Inl ''could not ping db''
                             else Inr healthy_conn),
      receiver = (\<lambda>dbName j. j),
      elapsed = Some 0\<rparr>"

definition healthy_conn_pgx :: "rat option DbInterface_pgx" where
  "healthy_conn_pgx =
     \<lparr>SetStatementTimeout_pgx = (\<lambda>d. None),
      Exec_pgx = (\<lambda>sql. Inr (Inr [slot_row_ok])),
      PgVersion_pgx = 100500,
      Close_pgx = None\<rparr>"

definition world_a_down_pgx :: "rat option world_pgx" where
  "world_a_down_pgx =
     \<lparr>db_New_pgx = (\<lambda>dbName i. if dbName = ''a'' then Inl ''could not init db''
                                 else Inr healthy_conn_pgx),
      receiver_pgx = (\<lambda>dbName j. j),
      elapsed_pgx = Some 0\<rparr>"

text \<open>The gauge that target "b" yields, and the internal metrics of a cycle with \<open>n\<close> errors.\<close>

definition slot_gauge :: "rat option prom_metric" where
  "slot_gauge =
     \<lparr>kind = NewGauge, Namespace = ''pg_slots'', MetricName = ''current_lag_bytes'',
      Help = ''Lag in bytes'', ConstLabels = [(''env'', ''prod''), (''slot_name'', ''s2'')],
      added = Some 7\<rparr>"

definition internal_metrics :: "int \<Rightarrow> rat option prom_metric list" where
  "internal_metrics n =
     [internal_metric NewGauge ''last_scrape_duration_seconds''
        ''Duration of the last scrape of metrics'' (Some 0),
      internal_metric NewCounter ''last_scrape_timeouts''
        ''Number of timed out statements'' (Some 0),
      internal_metric NewCounter ''last_scrape_errors''
        ''Number of errors during scraping'' (Some (of_int n))]"

text \<open>A connection that answers the settings query with a bad row first, and any other query with one slot row.\<close>

definition exec_rows :: "string \<Rightarrow> abort + (exec_error + rat option row list)" where
  "exec_rows sql =
     (if sql = ''select name, setting from pg_settings''
      then Inr (Inr [setting_row_bad_name, setting_row_ok])
      else Inr (Inr [slot_row_ok]))"

definition work_mem_gauge :: "rat option prom_metric" where
  "work_mem_gauge =
     \<lparr>kind = NewGauge, Namespace = ''pg_settings'', MetricName = ''work_mem'',
      Help = ''Work memory'', ConstLabels = [(''env'', ''prod''), (''pending_restart'', '''')],
      added = Some 4096\<rparr>"

text \<open>
  Two jobs of a target with the static label \<open>env = prod\<close> whose queries return \<open>env\<close> and
  \<open>shard\<close> as label columns, one in column mode and one in name/value mode, with a row each.
\<close>

definition shards_job :: workerJob where
  "shards_job =
     \<lparr>Name = ''pg_shards'',
      Metrics = [(''env'', \<lparr>Usage = Label, Description = ''Environment''\<rparr>),
                 (''shard'', \<lparr>Usage = Label, Description = ''Shard''\<rparr>),
                 (''size'', \<lparr>Usage = Gauge, Description = ''Size''\<rparr>)],
      VerSQL = [\<lparr>SQL = ''select env, shard, size from shards'', MinVer = 0, MaxVer = 0\<rparr>],
      NameColumn = '''', ValueColumn = '''',
      dbLabels = [(''env'', ''prod'')], pgVersion = 100500\<rparr>"

definition shard_row :: "rat option row" where
  "shard_row = [(''size'', VInt64 7), (''env'', VString ''staging''), (''shard'', VString ''1'')]"

definition shard_settings_job :: workerJob where
  "shard_settings_job =
     \<lparr>Name = ''pg_shard_settings'',
      Metrics = [(''env'', \<lparr>Usage = Label, Description = ''Environment''\<rparr>),
                 (''shard'', \<lparr>Usage = Label, Description = ''Shard''\<rparr>),
                 (''work_mem'', \<lparr>Usage = Gauge, Description = ''Work memory''\<rparr>)],
      VerSQL = [\<lparr>SQL = ''select env, shard, name, setting from shard_settings'',
                 MinVer = 0, MaxVer = 0\<rparr>],
      NameColumn = ''name'', ValueColumn = ''setting'',
      dbLabels = [(''env'', ''prod'')], pgVersion = 100500\<rparr>"

definition shard_setting_row :: "rat option row" where
  "shard_setting_row =
     [(''name'', VString ''work_mem''), (''setting'', VString ''4096''),
      (''env'', VString ''staging''), (''shard'', VString ''1'')]"

definition shard_size_gauge :: "rat option prom_metric" where
  "shard_size_gauge =
     \<lparr>kind = NewGauge, Namespace = ''pg_shards'', MetricName = ''size'', Help = ''Size'',
      ConstLabels = [(''env'', ''staging''), (''shard'', ''1'')], added = Some 7\<rparr>"

definition shard_work_mem_gauge :: "rat option prom_metric" where
  "shard_work_mem_gauge =
     \<lparr>kind = NewGauge, Namespace = ''pg_shard_settings'', MetricName = ''work_mem'',
      Help = ''Work memory'', ConstLabels = [(''env'', ''staging''), (''shard'', ''1'')],
      added = Some 4096\<rparr>"

section \<open>Properties of the resolver\<close>

lemma Query_loop_find:
  "Query_loop v V = (case find (in_range V) v of Some q \<Rightarrow> SQL q | None \<Rightarrow> '''')"
  by (induction v) (simp_all add: in_range_def)

text \<open>
  Claim C1. For a detected version other than the sentinel, the resolver returns the text of
  the first entry, in list order, whose range contains the version, and the empty string when
  no entry does; for the sentinel it returns the first entry's text whatever the bounds; a
  sole entry with both bounds zero is returned for every version; and on the example entries
  version 90500 gives "B", 100500 gives "A" and 80000 gives the empty string.
\<close>

theorem C1_Query_first_match:
  "(V \<noteq> NoVersion \<longrightarrow>
      VerSQLs_Query v V = Inr (case find (in_range V) v of Some q \<Rightarrow> SQL q | None \<Rightarrow> ''''))
   \<and> (v \<noteq> [] \<longrightarrow> VerSQLs_Query v NoVersion = Inr (SQL (hd v)))
   \<and> (MinVer q = 0 \<and> MaxVer q = 0 \<longrightarrow> VerSQLs_Query [q] V = Inr (SQL q))
   \<and> (V \<noteq> NoVersion \<and> (\<forall>e \<in> set v. \<not> in_range V e) \<longrightarrow> VerSQLs_Query v V = Inr '''')
   \<and> VerSQLs_Query example_variants 90500 = Inr ''B''
   \<and> VerSQLs_Query example_variants 100500 = Inr ''A''
   \<and> VerSQLs_Query example_variants 80000 = Inr ''''"
proof -
  have general: "VerSQLs_Query v V = Inr (case find (in_range V) v of Some q \<Rightarrow> SQL q | None \<Rightarrow> '''')"
    if "V \<noteq> NoVersion"
  proof (cases "length v = 1 \<and> MaxVer (v ! 0) = 0 \<and> MinVer (v ! 0) = 0")
    case True
    then obtain e where v: "v = [e]" and e: "MinVer e = 0" "MaxVer e = 0"
      by (cases v) auto
    show ?thesis using that e by (simp add: VerSQLs_Query_def v in_range_def)
  next
    case False
    with that have "VerSQLs_Query v V = Inr (Query_loop v V)"
      unfolding VerSQLs_Query_def by (simp only: if_False simp_thms)
    then show ?thesis by (simp add: Query_loop_find)
  qed
  have sentinel: "VerSQLs_Query v NoVersion = Inr (SQL (hd v))" if "v \<noteq> []"
    using that by (cases v) (simp_all add: VerSQLs_Query_def)
  have sole: "VerSQLs_Query [q] V = Inr (SQL q)" if "MinVer q = 0 \<and> MaxVer q = 0"
    using that by (simp add: VerSQLs_Query_def)
  have nomatch: "VerSQLs_Query v V = Inr ''''" if "V \<noteq> NoVersion \<and> (\<forall>e \<in> set v. \<not> in_range V e)"
  proof -
    from that have "find (in_range V) v = None" by (simp add: find_None_iff)
    with that general show ?thesis by simp
  qed
  have ex1: "VerSQLs_Query example_variants 90500 = Inr ''B''"
    by (simp add: VerSQLs_Query_def example_variants_def NoVersion_def)
  have ex2: "VerSQLs_Query example_variants 100500 = Inr ''A''"
    by (simp add: VerSQLs_Query_def example_variants_def NoVersion_def)
  have ex3: "VerSQLs_Query example_variants 80000 = Inr ''''"
    by (simp add: VerSQLs_Query_def example_variants_def NoVersion_def)
  from general sentinel sole nomatch ex1 ex2 ex3 show ?thesis by blast
qed

theorem C1_Query_first_match_witness:
  "(90500::int) \<noteq> NoVersion
   \<and> VerSQLs_Query example_variants 90500 =
       Inr (case find (in_range 90500) example_variants of Some q \<Rightarrow> SQL q | None \<Rightarrow> '''')
   \<and> example_variants \<noteq> []
   \<and> VerSQLs_Query example_variants NoVersion = Inr ''A''
   \<and> VerSQLs_Query [\<lparr>SQL = ''S'', MinVer = 0, MaxVer = 0\<rparr>] 90500 = Inr ''S''
   \<and> list_all (\<lambda>e. \<not> in_range 80000 e) example_variants
   \<and> VerSQLs_Query example_variants 80000 = Inr ''''"
  using C1_Query_first_match [of 90500 example_variants "\<lparr>SQL = ''S'', MinVer = 0, MaxVer = 0\<rparr>"]
    C1_Query_first_match [of 80000 example_variants "\<lparr>SQL = ''S'', MinVer = 0, MaxVer = 0\<rparr>"]
  by (simp add: example_variants_def NoVersion_def in_range_def)

text \<open>
  Claim C9. On the empty variant list the resolver returns the empty string for every version
  other than the sentinel, and for the sentinel it indexes element 0 of the empty list, which
  panics.
\<close>

theorem C9_Query_empty_list:
  "(V \<noteq> NoVersion \<longrightarrow> VerSQLs_Query [] V = Inr '''') \<and> VerSQLs_Query [] NoVersion = Inl IndexOutOfRange"
  by (simp add: VerSQLs_Query_def)

theorem C9_Query_empty_list_witness:
  "(90500::int) \<noteq> NoVersion \<and> VerSQLs_Query [] 90500 = Inr '''' \<and> VerSQLs_Query [] NoVersion = Inl IndexOutOfRange"
  using C9_Query_empty_list [of 90500] by (simp add: NoVersion_def)

section \<open>Properties of the numeric conversion\<close>

text \<open>
  Claim C6, as stated, fails on \<^verbatim>\<open>int64\<close> and \<^verbatim>\<open>float64\<close> values: they are input shapes
  other than boolean, timestamp, byte buffer, string and nil, and both revisions of
  \<^verbatim>\<open>ToFloat64\<close> convert them without an error. So does the later revision with \<^verbatim>\<open>int8\<close>
  and \<^verbatim>\<open>int32\<close> values and with a \<^verbatim>\<open>*pgtype.Numeric\<close> whose \<^verbatim>\<open>AssignTo\<close> succeeds.
\<close>

theorem C6_integer_is_not_an_error:
  "ToFloat64 test_lib (VInt64 5) = (Some 5, None)
   \<and> ToFloat64 test_lib (VFloat64 (Some (85 / 2))) = (Some (85 / 2), None)
   \<and> ToFloat64_pgx test_lib (VInt64 5) = (Some 5, None)
   \<and> ToFloat64_pgx test_lib (VFloat64 (Some (85 / 2))) = (Some (85 / 2), None)
   \<and> ToFloat64_pgx test_lib (VInt8 5) = (Some 5, None)
   \<and> ToFloat64_pgx test_lib (VInt32 5) = (Some 5, None)
   \<and> ToFloat64_pgx test_lib (VNumeric (Some 5) None None) = (Some 5, None)"
  by (simp add: test_lib_def)

text \<open>What the conversion does with a text that \<^verbatim>\<open>ParseFloat\<close> rejects, and with a numeric whose \<^verbatim>\<open>AssignTo\<close> fails.\<close>

lemma ToFloat64_parse_failure:
  "ParseFloat lib s = Inl e \<Longrightarrow>
     ToFloat64 lib (VBytes s) = (NaN lib, Some (CouldNotParseBytes e))
     \<and> ToFloat64 lib (VString s) = (NaN lib, Some (CouldNotParseString e))
     \<and> ToFloat64_pgx lib (VBytes s) = (NaN lib, Some (CouldNotParseBytes e))
     \<and> ToFloat64_pgx lib (VString s) = (NaN lib, Some (CouldNotParseString e))"
  by simp

lemma ToFloat64_pgx_numeric_failure:
  "ToFloat64_pgx lib (VNumeric res (Some e) str) = (res, Some (AssignToFailed e))"
  by simp

text \<open>
  Claim C6, amended. \<^verbatim>\<open>ToFloat64\<close> maps true to 1 and false to 0, a timestamp to its Unix
  seconds, a byte buffer or a string to the value parsed from it ("42.5" to 42.5), nil to
  NaN without an error, an \<^verbatim>\<open>int64\<close> or a \<^verbatim>\<open>float64\<close> to its value without an error, and
  every other input shape to NaN with an error that carries the type name. The later
  revision does the same and, before it reaches "every other", also maps an \<^verbatim>\<open>int8\<close> or an
  \<^verbatim>\<open>int32\<close> to its value without an error and a \<^verbatim>\<open>*pgtype.Numeric\<close> to what its
  \<^verbatim>\<open>AssignTo\<close> stores, together with the error \<^verbatim>\<open>AssignTo\<close> returns, if any.
\<close>

theorem C6_ToFloat64_shapes:
  "ToFloat64 lib (VBool True) = (float64_of_int lib 1, None)
   \<and> ToFloat64 lib (VBool False) = (float64_of_int lib 0, None)
   \<and> ToFloat64 lib (VTime t) = (float64_of_int lib (sint t), None)
   \<and> (ParseFloat lib s = Inr x \<longrightarrow>
         ToFloat64 lib (VBytes s) = (x, None) \<and> ToFloat64 lib (VString s) = (x, None))
   \<and> ToFloat64 lib VNil = (NaN lib, None)
   \<and> ToFloat64 lib (VInt64 i) = (float64_of_int lib (sint i), None)
   \<and> ToFloat64 lib (VFloat64 f) = (f, None)
   \<and> (\<not> named_shape v \<longrightarrow> ToFloat64 lib v = (NaN lib, Some (UnknownType (type_name v))))
   \<and> (named_shape v \<longrightarrow> ToFloat64_pgx lib v = ToFloat64 lib v)
   \<and> ToFloat64_pgx lib (VInt8 i8) = (float64_of_int lib (sint i8), None)
   \<and> ToFloat64_pgx lib (VInt32 i32) = (float64_of_int lib (sint i32), None)
   \<and> ToFloat64_pgx lib (VNumeric res None str) = (res, None)
   \<and> ToFloat64_pgx lib (VNumeric res (Some e) str) = (res, Some (AssignToFailed e))
   \<and> (\<not> named_shape_pgx v \<longrightarrow> ToFloat64_pgx lib v = (NaN lib, Some (UnknownType (type_name v))))
   \<and> ToFloat64 test_lib (VBytes ''42.5'') = (Some (85 / 2), None)
   \<and> ToFloat64_pgx test_lib (VBytes ''42.5'') = (Some (85 / 2), None)"
proof -
  have other: "ToFloat64 lib v = (NaN lib, Some (UnknownType (type_name v)))" if "\<not> named_shape v"
    using that by (cases v) simp_all
  have agree: "ToFloat64_pgx lib v = ToFloat64 lib v" if "named_shape v"
    using that by (cases v) simp_all
  have other_pgx: "ToFloat64_pgx lib v = (NaN lib, Some (UnknownType (type_name v)))"
    if "\<not> named_shape_pgx v"
    using that by (cases v) simp_all
  have parsed: "ParseFloat test_lib ''42.5'' = Inr (Some (85 / 2))"
    by (simp add: test_lib_def parse_decimal_def digit_of_def Let_def)
  from other agree other_pgx parsed show ?thesis by simp
qed

theorem C6_ToFloat64_shapes_witness:
  "ToFloat64 test_lib (VBool True) = (Some 1, None)
   \<and> ToFloat64 test_lib (VBool False) = (Some 0, None)
   \<and> ToFloat64 test_lib (VTime 1700000000) = (Some 1700000000, None)
   \<and> ParseFloat test_lib ''42.5'' = Inr (Some (85 / 2))
   \<and> ToFloat64 test_lib (VBytes ''42.5'') = (Some (85 / 2), None)
   \<and> ToFloat64 test_lib (VString ''42.5'') = (Some (85 / 2), None)
   \<and> ToFloat64 test_lib VNil = (None, None)
   \<and> \<not> named_shape (VOther ''float32'' :: rat option raw_value)
   \<and> ToFloat64 test_lib (VOther ''float32'') = (None, Some (UnknownType ''float32''))
   \<and> \<not> named_shape (VInt32 3 :: rat option raw_value)
   \<and> ToFloat64 test_lib (VInt32 3) = (None, Some (UnknownType ''int32''))
   \<and> named_shape (VInt64 5 :: rat option raw_value)
   \<and> ToFloat64_pgx test_lib (VInt64 5) = (Some 5, None)
   \<and> ToFloat64_pgx test_lib (VInt32 3) = (Some 3, None)
   \<and> \<not> named_shape_pgx (VIntKind ''uint16'' 3 :: rat option raw_value)
   \<and> ToFloat64_pgx test_lib (VIntKind ''uint16'' 3) = (None, Some (UnknownType ''uint16''))"
  using C6_ToFloat64_shapes [where lib = test_lib and s = "''42.5''" and x = "Some (85 / 2)"
      and v = "VOther ''float32''"]
    C6_ToFloat64_shapes [where lib = test_lib and v = "VInt32 3"]
    C6_ToFloat64_shapes [where lib = test_lib and v = "VInt64 5"]
    C6_ToFloat64_shapes [where lib = test_lib and v = "VIntKind ''uint16'' 3"]
  by (simp add: test_lib_def parse_decimal_def digit_of_def Let_def)

section \<open>Properties of the label merge\<close>

lemma map_of_fold_update:
  "distinct (map fst xs) \<Longrightarrow>
   map_of (fold (\<lambda>(id, value) res. AList.update id value res) xs acc) = map_of acc ++ map_of xs"
proof (induction xs arbitrary: acc)
  case Nil
  then show ?case by simp
next
  case (Cons x xs)
  obtain k v where x: "x = (k, v)" by (cases x)
  from Cons.prems have k: "map_of xs k = None" and d: "distinct (map fst xs)"
    by (auto simp: x map_of_eq_None_iff)
  have "fold (\<lambda>(id, value) res. AList.update id value res) (x # xs) acc
          = fold (\<lambda>(id, value) res. AList.update id value res) xs (AList.update k v acc)"
    by (simp add: x)
  then have "map_of (fold (\<lambda>(id, value) res. AList.update id value res) (x # xs) acc)
          = map_of (AList.update k v acc) ++ map_of xs"
    by (simp only: Cons.IH [OF d])
  also have "\<dots> = map_of acc ++ map_of (x # xs)"
    using k by (intro ext) (simp add: x update_conv' map_add_def split: option.splits)
  finally show ?case .
qed

lemma distinct_fold_update:
  "distinct (map fst acc) \<Longrightarrow>
   distinct (map fst (fold (\<lambda>(id, value) res. AList.update id value res) xs acc))"
  by (induction xs arbitrary: acc) (auto simp: distinct_update)

lemma mergeLabels_map_of:
  "distinct (map fst a) \<Longrightarrow> distinct (map fst b) \<Longrightarrow>
   map_of (mergeLabels a b) = map_of a ++ map_of b"
  by (simp add: mergeLabels_def map_of_fold_update)

lemma createMetric_ConstLabels:
  "createMetric lib job name constLabels rawValue = Inr (Some m) \<Longrightarrow> ConstLabels m = constLabels"
  by (auto simp: createMetric_def split: ColumnUsage.splits prod.splits option.splits)

section \<open>Properties of the worker\<close>

subsection \<open>The loop over the label columns\<close>

lemma ToString_failed_empty: "ToString lib v = (val, False) \<Longrightarrow> val = ''''"
  by (cases v) (auto split: if_splits)

lemma convert_labels_keep:
  "c \<notin> set cols \<Longrightarrow> map_of (fst (convert_labels lib row cols labels p)) c = map_of labels c"
  by (induction cols arbitrary: labels p) (auto simp: update_conv' split: prod.splits)

lemma convert_labels_value:
  "c \<in> set cols \<Longrightarrow>
   map_of (fst (convert_labels lib row cols labels p)) c
     = Some (fst (ToString lib (index_map VNil row c)))"
proof (induction cols arbitrary: labels p)
  case Nil
  then show ?case by simp
next
  case (Cons a cols)
  show ?case
  proof (cases "c \<in> set cols")
    case True
    then show ?thesis by (simp add: Cons.IH split: prod.splits)
  next
    case False
    with Cons.prems have "a = c" by simp
    with False show ?thesis
      by (simp add: convert_labels_keep update_conv' split: prod.splits)
  qed
qed

lemma convert_labels_state:
  "snd (convert_labels lib row cols labels p)
     = p\<lparr>errors := errors p + of_nat (failed_labels lib row cols)\<rparr>"
  by (induction cols arbitrary: labels p)
     (auto simp: failed_labels_def count_error_def split: prod.splits)

lemma process_row_unfold:
  "process_row lib job cols row p =
     (if NameColumn job \<noteq> []
      then name_value lib job (mergeLabels (dbLabels job) (fst (convert_labels lib row cols [] p))) row
             (p\<lparr>errors := errors p + of_nat (failed_labels lib row cols)\<rparr>)
      else columns_loop lib job (fst (convert_labels lib row cols [] p))
             (mergeLabels (dbLabels job) (fst (convert_labels lib row cols [] p))) row
             (p\<lparr>errors := errors p + of_nat (failed_labels lib row cols)\<rparr>))"
  by (simp add: process_row_def case_prod_beta convert_labels_state)

subsection \<open>Leaving the loops\<close>

lemma rows_loop_abandon:
  assumes "\<And>q. fst (process_row lib job cols row q) = ContinueJobs"
  shows "rows_loop lib job cols (before @ row # rest) p = rows_loop lib job cols (before @ [row]) p"
proof (induction before arbitrary: p)
  case Nil
  obtain fl q where r: "process_row lib job cols row p = (fl, q)"
    by (cases "process_row lib job cols row p")
  with assms [of p] have "fl = ContinueJobs" by simp
  with r show ?case by simp
next
  case (Cons a before)
  then show ?case by (simp split: prod.splits flow.splits)
qed

lemma columns_loop_append:
  "columns_loop lib job labels cl (xs @ ys) p
     = (case columns_loop lib job labels cl xs p of
          (ContinueJobs, q) \<Rightarrow> (ContinueJobs, q)
        | (NextRow, q) \<Rightarrow> columns_loop lib job labels cl ys q)"
proof (induction xs arbitrary: p)
  case Nil
  then show ?case by simp
next
  case (Cons a xs)
  obtain c v where a: "a = (c, v)" by (cases a)
  show ?case
    by (simp add: a Cons.IH split: sum.splits option.splits)
qed

subsection \<open>Creating a metric\<close>

lemma createMetric_fails:
  assumes "map_of (Metrics job) name = Some metric"
    and "Usage metric = Counter \<or> Usage metric = Gauge"
    and "snd (ToFloat64 lib rawValue) = Some err"
  shows "createMetric lib job name constLabels rawValue = Inl err"
  using assms by (auto simp: createMetric_def index_map_def split: prod.splits)

lemma createMetric_skips:
  assumes "map_of (Metrics job) name = None
      \<or> (\<exists>metric. map_of (Metrics job) name = Some metric \<and> (Usage metric = Discard \<or> Usage metric = Label))"
  shows "createMetric lib job name constLabels rawValue = Inr None"
  using assms by (auto simp: createMetric_def index_map_def zero_Metric_def)

lemma not_label_column:
  assumes "distinct (map fst (Metrics job))"
    and "map_of (Metrics job) name = Some metric" and "Usage metric \<noteq> Label"
  shows "name \<notin> set (label_columns job)"
proof
  assume "name \<in> set (label_columns job)"
  then obtain m where m: "(name, m) \<in> set (Metrics job)" and l: "Usage m = Label"
    by (auto simp: label_columns_def)
  from assms(1) m have "map_of (Metrics job) name = Some m" by (rule map_of_is_SomeI)
  with assms(2,3) l show False by simp
qed

subsection \<open>Conversion failures in a row\<close>

text \<open>
  Claim C4. A label column whose value does not convert adds one to the error counter, the
  loop goes on with the remaining label columns, the label is stored as the empty string
  and the row's metric is still sent; a name column whose value does not convert adds one
  to the error counter and ends the loop over the rows, whatever rows follow; and the worker
  then takes the next job.
\<close>

theorem C4_conversion_failures:
  "(ToString lib (index_map VNil row columnName) = (val, False) \<longrightarrow>
      convert_labels lib row (columnName # others) labels p
        = convert_labels lib row others (AList.update columnName '''' labels) (count_error p))
   \<and> (columnName \<in> set labelColumns \<and> \<not> snd (ToString lib (index_map VNil row columnName)) \<longrightarrow>
        map_of (fst (convert_labels lib row labelColumns [] p)) columnName = Some '''')
   \<and> snd (convert_labels lib row labelColumns [] p)
        = p\<lparr>errors := errors p + of_nat (failed_labels lib row labelColumns)\<rparr>
   \<and> (NameColumn job \<noteq> '''' \<and> ToString lib (index_map VNil row (NameColumn job)) = (metricName, True)
        \<and> createMetric lib job metricName
             (mergeLabels (dbLabels job) (fst (convert_labels lib row labelColumns [] p)))
             (index_map VNil row (ValueColumn job)) = Inr (Some m) \<longrightarrow>
        process_row lib job labelColumns row p
          = (NextRow, send m (p\<lparr>errors := errors p + of_nat (failed_labels lib row labelColumns)\<rparr>)))
   \<and> (NameColumn job \<noteq> '''' \<and> \<not> snd (ToString lib (index_map VNil row (NameColumn job))) \<longrightarrow>
        process_row lib job labelColumns row p
          = (ContinueJobs, count_error (p\<lparr>errors := errors p + of_nat (failed_labels lib row labelColumns)\<rparr>))
        \<and> rows_loop lib job labelColumns (row # later) p
          = count_error (p\<lparr>errors := errors p + of_nat (failed_labels lib row labelColumns)\<rparr>)
        \<and> rows_loop lib job labelColumns (before @ row # later) p
          = rows_loop lib job labelColumns (before @ [row]) p)
   \<and> (run_job lib exec job p = Inr p' \<longrightarrow> worker lib exec (job # jobs) p = worker lib exec jobs p')"
proof -
  have a: "convert_labels lib row (columnName # others) labels p
        = convert_labels lib row others (AList.update columnName '''' labels) (count_error p)"
    if "ToString lib (index_map VNil row columnName) = (val, False)"
    using that ToString_failed_empty [OF that] by simp
  have b: "map_of (fst (convert_labels lib row labelColumns [] p)) columnName = Some ''''"
    if "columnName \<in> set labelColumns \<and> \<not> snd (ToString lib (index_map VNil row columnName))"
  proof -
    from that have "ToString lib (index_map VNil row columnName)
        = (fst (ToString lib (index_map VNil row columnName)), False)"
      by (metis prod.collapse)
    then have "fst (ToString lib (index_map VNil row columnName)) = ''''"
      using ToString_failed_empty by fastforce
    with that show ?thesis by (simp add: convert_labels_value)
  qed
  have c: "snd (convert_labels lib row labelColumns [] p)
        = p\<lparr>errors := errors p + of_nat (failed_labels lib row labelColumns)\<rparr>"
    by (rule convert_labels_state)
  have d: "process_row lib job labelColumns row p
          = (NextRow, send m (p\<lparr>errors := errors p + of_nat (failed_labels lib row labelColumns)\<rparr>))"
    if "NameColumn job \<noteq> '''' \<and> ToString lib (index_map VNil row (NameColumn job)) = (metricName, True)
        \<and> createMetric lib job metricName
             (mergeLabels (dbLabels job) (fst (convert_labels lib row labelColumns [] p)))
             (index_map VNil row (ValueColumn job)) = Inr (Some m)"
    using that by (simp add: process_row_unfold name_value_def)
  have e1: "process_row lib job labelColumns row q
          = (ContinueJobs, count_error (q\<lparr>errors := errors q + of_nat (failed_labels lib row labelColumns)\<rparr>))"
    if "NameColumn job \<noteq> '''' \<and> \<not> snd (ToString lib (index_map VNil row (NameColumn job)))" for q
    using that by (auto simp: process_row_unfold name_value_def split: prod.splits)
  have e2: "rows_loop lib job labelColumns (row # later) p
          = count_error (p\<lparr>errors := errors p + of_nat (failed_labels lib row labelColumns)\<rparr>)"
    if "NameColumn job \<noteq> '''' \<and> \<not> snd (ToString lib (index_map VNil row (NameColumn job)))"
    using e1 [OF that, of p] by simp
  have e3: "rows_loop lib job labelColumns (before @ row # later) p
          = rows_loop lib job labelColumns (before @ [row]) p"
    if "NameColumn job \<noteq> '''' \<and> \<not> snd (ToString lib (index_map VNil row (NameColumn job)))"
    by (rule rows_loop_abandon) (simp add: e1 [OF that])
  have f: "worker lib exec (job # jobs) p = worker lib exec jobs p'" if "run_job lib exec job p = Inr p'"
    using that by simp
  from a b c d e1 [of p] e2 e3 f show ?thesis by blast
qed

text \<open>The definitions that an evaluation of the fixtures unfolds.\<close>

lemmas fixture_defs = test_lib_def parse_decimal_def digit_of_def Let_def
  p0_def slots_job_def settings_job_def slot_row_bad_label_def
  slot_row_bad_value_def slot_row_ok_def setting_row_ok_def setting_row_bad_name_def
  setting_row_unknown_def setting_row_unknown_bad_label_def exec_rows_def work_mem_gauge_def
  slot_gauge_def

lemmas model_defs = process_row_def name_value_def label_columns_def index_map_def mergeLabels_def
  count_error_def count_timeout_def send_def createMetric_def zero_Metric_def run_job_def
  VerSQLs_Query_def NoVersion_def failed_labels_def

theorem C4_conversion_failures_witness:
  "ToString test_lib (index_map VNil setting_row_ok ''pending_restart'') = ('''', False)
   \<and> convert_labels test_lib setting_row_ok [''pending_restart''] [] p0
       = ([(''pending_restart'', '''')], \<lparr>timeOuts = 0, errors = 1, metricsCh = []\<rparr>)
   \<and> ''pending_restart'' \<in> set (label_columns settings_job)
   \<and> map_of (fst (convert_labels test_lib setting_row_ok (label_columns settings_job) [] p0))
        ''pending_restart'' = Some ''''
   \<and> NameColumn settings_job \<noteq> ''''
   \<and> ToString test_lib (index_map VNil setting_row_ok (NameColumn settings_job)) = (''work_mem'', True)
   \<and> process_row test_lib settings_job (label_columns settings_job) setting_row_ok p0
       = (NextRow, \<lparr>timeOuts = 0, errors = 1, metricsCh = [work_mem_gauge]\<rparr>)
   \<and> process_row test_lib slots_job (label_columns slots_job) slot_row_bad_label p0
       = (NextRow,
          \<lparr>timeOuts = 0, errors = 1,
             metricsCh = [slot_gauge\<lparr>ConstLabels := [(''env'', ''prod''), (''slot_name'', '''')]\<rparr>]\<rparr>)
   \<and> \<not> snd (ToString test_lib (index_map VNil setting_row_bad_name (NameColumn settings_job)))
   \<and> rows_loop test_lib settings_job (label_columns settings_job)
        [setting_row_bad_name, setting_row_ok] p0
       = \<lparr>timeOuts = 0, errors = 1, metricsCh = []\<rparr>
   \<and> run_job test_lib exec_rows settings_job p0 = Inr \<lparr>timeOuts = 0, errors = 1, metricsCh = []\<rparr>
   \<and> worker test_lib exec_rows [settings_job, slots_job] p0
       = Inr \<lparr>timeOuts = 0, errors = 1, metricsCh = [slot_gauge]\<rparr>"
  using C4_conversion_failures [where lib = test_lib and row = setting_row_ok
      and columnName = "''pending_restart''" and val = "''''" and others = "[]" and labels = "[]"
      and p = p0 and labelColumns = "label_columns settings_job" and job = settings_job
      and metricName = "''work_mem''"
      and m = "work_mem_gauge" and exec = exec_rows
      and p' = "\<lparr>timeOuts = 0, errors = 1, metricsCh = []\<rparr>" and jobs = "[slots_job]"]
    C4_conversion_failures [where lib = test_lib and row = setting_row_bad_name
      and p = p0 and labelColumns = "label_columns settings_job" and job = settings_job
      and later = "[setting_row_ok]" and before = "[]"]
  by (simp add: fixture_defs model_defs)

subsection \<open>The labels of the metrics a row yields\<close>

lemma convert_labels_distinct:
  "distinct (map fst labels) \<Longrightarrow>
   distinct (map fst (fst (convert_labels lib row cols labels p)))"
  by (induction cols arbitrary: labels p) (auto simp: distinct_update split: prod.splits)

lemma convert_labels_None:
  "c \<notin> set cols \<Longrightarrow> map_of (fst (convert_labels lib row cols [] p)) c = None"
  by (simp add: convert_labels_keep)

lemma convert_labels_dom:
  "dom (map_of (fst (convert_labels lib row cols [] p))) = set cols"
proof (rule set_eqI)
  fix c
  show "c \<in> dom (map_of (fst (convert_labels lib row cols [] p))) \<longleftrightarrow> c \<in> set cols"
    by (cases "c \<in> set cols") (auto simp: convert_labels_value convert_labels_None)
qed

lemma columns_loop_sent:
  "\<exists>sent. metricsCh (snd (columns_loop lib job labels cl cols p)) = metricsCh p @ sent
     \<and> (\<forall>m \<in> set sent. ConstLabels m = cl)"
proof (induction cols arbitrary: p)
  case Nil
  then show ?case by simp
next
  case (Cons a cols)
  obtain c v where a: "a = (c, v)" by (cases a)
  show ?case
  proof (cases "map_of labels c \<noteq> None \<or> map_of (Metrics job) c = None")
    case True
    then show ?thesis using Cons.IH [of p] by (auto simp: a)
  next
    case False
    show ?thesis
    proof (cases "createMetric lib job c cl v")
      case (Inl err)
      with False show ?thesis by (auto simp: a count_error_def)
    next
      case (Inr r)
      show ?thesis
      proof (cases r)
        case None
        with False Inr show ?thesis using Cons.IH [of p] by (auto simp: a)
      next
        case (Some m)
        with Inr have cl: "ConstLabels m = cl" by (simp add: createMetric_ConstLabels)
        from Cons.IH [of "send m p"] obtain sent where
          "metricsCh (snd (columns_loop lib job labels cl cols (send m p))) = metricsCh (send m p) @ sent"
          "\<forall>m \<in> set sent. ConstLabels m = cl" by blast
        with False Inr Some cl show ?thesis
          by (intro exI [of _ "m # sent"]) (auto simp: a send_def)
      qed
    qed
  qed
qed

lemma name_value_sent:
  "\<exists>sent. metricsCh (snd (name_value lib job cl row p)) = metricsCh p @ sent
     \<and> (\<forall>m \<in> set sent. ConstLabels m = cl)"
proof (cases "ToString lib (index_map VNil row (NameColumn job))")
  case (Pair metricName ok)
  show ?thesis
  proof (cases "createMetric lib job metricName cl (index_map VNil row (ValueColumn job))")
    case (Inl err)
    with Pair show ?thesis by (simp add: name_value_def count_error_def)
  next
    case (Inr r)
    show ?thesis
    proof (cases r)
      case None
      with Pair Inr show ?thesis by (simp add: name_value_def count_error_def)
    next
      case (Some m)
      with Inr have "ConstLabels m = cl" by (simp add: createMetric_ConstLabels)
      with Pair Inr Some show ?thesis
        by (cases ok) (simp_all add: name_value_def count_error_def send_def)
    qed
  qed
qed

lemma process_row_sent:
  "\<exists>sent. metricsCh (snd (process_row lib job cols row p)) = metricsCh p @ sent
     \<and> (\<forall>m \<in> set sent.
           ConstLabels m = mergeLabels (dbLabels job) (fst (convert_labels lib row cols [] p)))"
proof (cases "NameColumn job \<noteq> ''''")
  case True
  then show ?thesis
    using name_value_sent [of lib job
        "mergeLabels (dbLabels job) (fst (convert_labels lib row cols [] p))" row
        "p\<lparr>errors := errors p + of_nat (failed_labels lib row cols)\<rparr>"]
    by (simp add: process_row_unfold)
next
  case False
  then show ?thesis
    using columns_loop_sent [of lib job "fst (convert_labels lib row cols [] p)"
        "mergeLabels (dbLabels job) (fst (convert_labels lib row cols [] p))" row
        "p\<lparr>errors := errors p + of_nat (failed_labels lib row cols)\<rparr>"]
    by (simp add: process_row_unfold)
qed

lemma row_labels_merged:
  assumes "distinct (map fst static)"
  shows "map_of (mergeLabels static (fst (convert_labels lib row cols [] p))) k
           = (if k \<in> set cols then Some (fst (ToString lib (index_map VNil row k)))
              else map_of static k)"
proof -
  have "distinct (map fst (fst (convert_labels lib row cols [] p)))"
    by (rule convert_labels_distinct) simp
  with assms have "map_of (mergeLabels static (fst (convert_labels lib row cols [] p)))
      = map_of static ++ map_of (fst (convert_labels lib row cols [] p))"
    by (rule mergeLabels_map_of)
  then show ?thesis
    by (simp add: map_add_def convert_labels_value convert_labels_None)
qed

text \<open>
  Claim C7. Merging label maps \<open>a\<close> and \<open>b\<close> gives a map with exactly the keys of both that
  carries the value of \<open>b\<close> on every key of \<open>b\<close> and the value of \<open>a\<close> on the others;
  merging \<open>{env: prod}\<close> with \<open>{env: staging, shard: 1}\<close> gives \<open>{env: staging, shard: 1}\<close>.
  The worker merges the target's static labels, as \<open>a\<close>, with the labels of the row, as
  \<open>b\<close>: every metric it sends for a row, in either mode, holds as its constant labels the
  keys of both, the row's value on every label column and the static value on the other
  keys; and a metric that \<^verbatim>\<open>createMetric\<close> makes from these labels is sent. Go maps have no
  key twice, which are the hypotheses.
\<close>

theorem C7_mergeLabels_dynamic_wins:
  assumes "distinct (map fst a)" and "distinct (map fst b)"
    and "distinct (map fst (dbLabels job))"
  shows "dom (map_of (mergeLabels a b)) = dom (map_of a) \<union> dom (map_of b)
     \<and> (\<forall>k v. map_of b k = Some v \<longrightarrow> map_of (mergeLabels a b) k = Some v)
     \<and> (\<forall>k. map_of b k = None \<longrightarrow> map_of (mergeLabels a b) k = map_of a k)
     \<and> mergeLabels [(''env'', ''prod'')] [(''env'', ''staging''), (''shard'', ''1'')]
          = [(''env'', ''staging''), (''shard'', ''1'')]
     \<and> (\<exists>sent. metricsCh (snd (process_row lib job labelColumns row p)) = metricsCh p @ sent
           \<and> (\<forall>m \<in> set sent.
                 ConstLabels m
                   = mergeLabels (dbLabels job) (fst (convert_labels lib row labelColumns [] p))
                 \<and> dom (map_of (ConstLabels m)) = dom (map_of (dbLabels job)) \<union> set labelColumns
                 \<and> (\<forall>c \<in> set labelColumns.
                       map_of (ConstLabels m) c = Some (fst (ToString lib (index_map VNil row c))))
                 \<and> (\<forall>k. k \<notin> set labelColumns \<longrightarrow>
                       map_of (ConstLabels m) k = map_of (dbLabels job) k)))
     \<and> (NameColumn job \<noteq> ''''
          \<and> ToString lib (index_map VNil row (NameColumn job)) = (metricName, True)
          \<and> createMetric lib job metricName
               (mergeLabels (dbLabels job) (fst (convert_labels lib row labelColumns [] p)))
               (index_map VNil row (ValueColumn job)) = Inr (Some m1)
          \<longrightarrow> metricsCh (snd (process_row lib job labelColumns row p)) = metricsCh p @ [m1])
     \<and> (NameColumn job = '''' \<and> row = (colName, colValue) # later
          \<and> colName \<notin> set labelColumns \<and> map_of (Metrics job) colName \<noteq> None
          \<and> createMetric lib job colName
               (mergeLabels (dbLabels job) (fst (convert_labels lib row labelColumns [] p)))
               colValue = Inr (Some m2)
          \<longrightarrow> (\<exists>more. metricsCh (snd (process_row lib job labelColumns row p))
                         = metricsCh p @ m2 # more))"
proof -
  let ?L = "fst (convert_labels lib row labelColumns [] p)"
  let ?cl = "mergeLabels (dbLabels job) ?L"
  let ?p = "p\<lparr>errors := errors p + of_nat (failed_labels lib row labelColumns)\<rparr>"
  have m: "map_of (mergeLabels a b) = map_of a ++ map_of b"
    using assms(1,2) by (rule mergeLabels_map_of)
  have c1: "dom (map_of (mergeLabels a b)) = dom (map_of a) \<union> dom (map_of b)"
    unfolding m by auto
  have c2: "\<forall>k v. map_of b k = Some v \<longrightarrow> map_of (mergeLabels a b) k = Some v"
    unfolding m by simp
  have c3: "\<forall>k. map_of b k = None \<longrightarrow> map_of (mergeLabels a b) k = map_of a k"
    unfolding m by (simp add: map_add_def)
  have c4: "mergeLabels [(''env'', ''prod'')] [(''env'', ''staging''), (''shard'', ''1'')]
      = [(''env'', ''staging''), (''shard'', ''1'')]"
    by (simp add: mergeLabels_def)
  have merged: "map_of ?cl k
      = (if k \<in> set labelColumns then Some (fst (ToString lib (index_map VNil row k)))
         else map_of (dbLabels job) k)" for k
    using assms(3) by (rule row_labels_merged)
  have dom_cl: "dom (map_of ?cl) = dom (map_of (dbLabels job)) \<union> set labelColumns"
    by (auto simp: merged dom_def split: if_splits)
  from process_row_sent [of lib job labelColumns row p] obtain sent where
    sent: "metricsCh (snd (process_row lib job labelColumns row p)) = metricsCh p @ sent"
    and cl: "\<forall>m \<in> set sent. ConstLabels m = ?cl" by blast
  have c5: "\<exists>sent. metricsCh (snd (process_row lib job labelColumns row p)) = metricsCh p @ sent
      \<and> (\<forall>m \<in> set sent.
            ConstLabels m = ?cl
            \<and> dom (map_of (ConstLabels m)) = dom (map_of (dbLabels job)) \<union> set labelColumns
            \<and> (\<forall>c \<in> set labelColumns.
                  map_of (ConstLabels m) c = Some (fst (ToString lib (index_map VNil row c))))
            \<and> (\<forall>k. k \<notin> set labelColumns \<longrightarrow> map_of (ConstLabels m) k = map_of (dbLabels job) k))"
    using sent cl dom_cl merged by (intro exI [of _ sent]) simp
  have c6: "metricsCh (snd (process_row lib job labelColumns row p)) = metricsCh p @ [m1]"
    if "NameColumn job \<noteq> ''''
        \<and> ToString lib (index_map VNil row (NameColumn job)) = (metricName, True)
        \<and> createMetric lib job metricName ?cl (index_map VNil row (ValueColumn job)) = Inr (Some m1)"
    using that by (simp add: process_row_unfold name_value_def send_def)
  have c7: "\<exists>more. metricsCh (snd (process_row lib job labelColumns row p)) = metricsCh p @ m2 # more"
    if h: "NameColumn job = '''' \<and> row = (colName, colValue) # later
        \<and> colName \<notin> set labelColumns \<and> map_of (Metrics job) colName \<noteq> None
        \<and> createMetric lib job colName ?cl colValue = Inr (Some m2)"
  proof -
    from h have none: "map_of ?L colName = None" by (simp add: convert_labels_None)
    have "columns_loop lib job ?L ?cl ((colName, colValue) # later) ?p
        = columns_loop lib job ?L ?cl later (send m2 ?p)"
      using h none by auto
    moreover from columns_loop_sent [of lib job ?L ?cl later "send m2 ?p"] obtain more where
      "metricsCh (snd (columns_loop lib job ?L ?cl later (send m2 ?p)))
         = metricsCh (send m2 ?p) @ more" by blast
    moreover have "process_row lib job labelColumns row p
        = columns_loop lib job ?L ?cl ((colName, colValue) # later) ?p"
      using h by (simp add: process_row_unfold)
    ultimately show ?thesis by (simp add: send_def)
  qed
  from c1 c2 c3 c4 c5 c6 c7 show ?thesis by blast
qed

theorem C7_mergeLabels_dynamic_wins_witness:
  "distinct (map fst [(''env'', ''prod''), (''host'', ''db1'')])
   \<and> distinct (map fst [(''env'', ''staging''), (''shard'', ''1'')])
   \<and> distinct (map fst (dbLabels shards_job))
   \<and> distinct (map fst (dbLabels shard_settings_job))
   \<and> dom (map_of (mergeLabels [(''env'', ''prod''), (''host'', ''db1'')]
                     [(''env'', ''staging''), (''shard'', ''1'')]))
       = {''env'', ''host'', ''shard''}
   \<and> map_of (mergeLabels [(''env'', ''prod''), (''host'', ''db1'')]
                [(''env'', ''staging''), (''shard'', ''1'')]) ''env'' = Some ''staging''
   \<and> map_of (mergeLabels [(''env'', ''prod''), (''host'', ''db1'')]
                [(''env'', ''staging''), (''shard'', ''1'')]) ''host'' = Some ''db1''
   \<and> NameColumn shards_job = ''''
   \<and> ''size'' \<notin> set (label_columns shards_job)
   \<and> map_of (Metrics shards_job) ''size'' \<noteq> None
   \<and> process_row test_lib shards_job (label_columns shards_job) shard_row p0
       = (NextRow, \<lparr>timeOuts = 0, errors = 0, metricsCh = [shard_size_gauge]\<rparr>)
   \<and> NameColumn shard_settings_job \<noteq> ''''
   \<and> ToString test_lib (index_map VNil shard_setting_row (NameColumn shard_settings_job))
       = (''work_mem'', True)
   \<and> process_row test_lib shard_settings_job (label_columns shard_settings_job)
        shard_setting_row p0
       = (NextRow, \<lparr>timeOuts = 0, errors = 0, metricsCh = [shard_work_mem_gauge]\<rparr>)
   \<and> map_of (dbLabels shards_job) ''env'' = Some ''prod''
   \<and> map_of (ConstLabels shard_size_gauge) ''env'' = Some ''staging''
   \<and> map_of (ConstLabels shard_work_mem_gauge) ''env'' = Some ''staging''
   \<and> map_of (ConstLabels shard_work_mem_gauge) ''shard'' = Some ''1''"
  using C7_mergeLabels_dynamic_wins [where a = "[(''env'', ''prod''), (''host'', ''db1'')]"
      and b = "[(''env'', ''staging''), (''shard'', ''1'')]" and job = shards_job
      and lib = test_lib and labelColumns = "label_columns shards_job" and row = shard_row
      and p = p0 and colName = "''size''" and colValue = "VInt64 7"
      and later = "[(''env'', VString ''staging''), (''shard'', VString ''1'')]"
      and ?m2.0 = shard_size_gauge]
    C7_mergeLabels_dynamic_wins [where a = "[(''env'', ''prod''), (''host'', ''db1'')]"
      and b = "[(''env'', ''staging''), (''shard'', ''1'')]" and job = shard_settings_job
      and lib = test_lib and labelColumns = "label_columns shard_settings_job"
      and row = shard_setting_row and p = p0 and metricName = "''work_mem''"
      and ?m1.0 = shard_work_mem_gauge]
  by (auto simp: fixture_defs model_defs shards_job_def shard_row_def shard_settings_job_def
      shard_setting_row_def shard_size_gauge_def shard_work_mem_gauge_def)

subsection \<open>A value that does not convert, in column mode\<close>

text \<open>
  Claim C8. In column mode, a column with a counter or gauge definition whose value
  \<^const>\<open>ToFloat64\<close> does not convert adds one to the error counter and ends the job: the
  columns after it in the row yield nothing, the row's pass ends with \<^verbatim>\<open>continue jobs\<close>, and
  the rows after it are not visited. The metric definitions are a Go map, so no name occurs
  twice in them.
\<close>

theorem C8_column_mode_value_failure:
  assumes mode: "NameColumn job = ''''"
    and keys: "distinct (map fst (Metrics job))"
    and metric: "map_of (Metrics job) colName = Some metric"
    and usage: "Usage metric = Counter \<or> Usage metric = Gauge"
    and conv: "snd (ToFloat64 lib colValue) = Some err"
  shows "(map_of labels colName = None \<longrightarrow>
           columns_loop lib job labels constLabels ((colName, colValue) # later) p
             = (ContinueJobs, count_error p)
         \<and> columns_loop lib job labels constLabels (earlier @ (colName, colValue) # later) p
             = (case columns_loop lib job labels constLabels earlier p of
                  (ContinueJobs, q) \<Rightarrow> (ContinueJobs, q)
                | (NextRow, q) \<Rightarrow> (ContinueJobs, count_error q)))
     \<and> fst (process_row lib job (label_columns job) (earlier @ (colName, colValue) # later) p)
         = ContinueJobs
     \<and> rows_loop lib job (label_columns job) ((earlier @ (colName, colValue) # later) # rows_after) p
         = snd (process_row lib job (label_columns job) (earlier @ (colName, colValue) # later) p)
     \<and> rows_loop lib job (label_columns job)
           (rows_before @ (earlier @ (colName, colValue) # later) # rows_after) p
         = rows_loop lib job (label_columns job)
             (rows_before @ [earlier @ (colName, colValue) # later]) p"
proof -
  have fails: "createMetric lib job colName cl colValue = Inl err" for cl
    using metric usage conv by (rule createMetric_fails)
  have here: "columns_loop lib job labels cl ((colName, colValue) # later) q = (ContinueJobs, count_error q)"
    if "map_of labels colName = None" for labels cl q
    using that metric by (simp add: fails)
  have reach: "columns_loop lib job labels cl (earlier @ (colName, colValue) # later) q
      = (case columns_loop lib job labels cl earlier q of
           (ContinueJobs, q') \<Rightarrow> (ContinueJobs, q')
         | (NextRow, q') \<Rightarrow> (ContinueJobs, count_error q'))"
    if "map_of labels colName = None" for labels cl q
    by (simp only: columns_loop_append here [OF that])
  have "Usage metric \<noteq> Label" using usage by auto
  with keys metric have "colName \<notin> set (label_columns job)" by (rule not_label_column)
  then have nolabel: "map_of (fst (convert_labels lib row (label_columns job) [] q)) colName = None" for row q
    by (simp add: convert_labels_keep)
  have flow: "fst (process_row lib job (label_columns job) (earlier @ (colName, colValue) # later) q)
      = ContinueJobs" for q
    by (simp add: process_row_unfold mode reach [OF nolabel] split: prod.splits flow.splits)
  have one: "rows_loop lib job (label_columns job) ((earlier @ (colName, colValue) # later) # rows_after) p
      = snd (process_row lib job (label_columns job) (earlier @ (colName, colValue) # later) p)"
    using flow [of p] by (auto split: prod.splits flow.splits)
  have many: "rows_loop lib job (label_columns job)
        (rows_before @ (earlier @ (colName, colValue) # later) # rows_after) p
      = rows_loop lib job (label_columns job) (rows_before @ [earlier @ (colName, colValue) # later]) p"
    by (rule rows_loop_abandon) (rule flow)
  from here reach flow one many show ?thesis by blast
qed

theorem C8_column_mode_value_failure_witness:
  "NameColumn slots_job = ''''
   \<and> distinct (map fst (Metrics slots_job))
   \<and> map_of (Metrics slots_job) ''current_lag_bytes''
       = Some \<lparr>Usage = Gauge, Description = ''Lag in bytes''\<rparr>
   \<and> snd (ToFloat64 test_lib (VString ''n/a'')) = Some (CouldNotParseString ''invalid syntax'')
   \<and> map_of [(''slot_name'', ''s1'')] ''current_lag_bytes'' = None
   \<and> columns_loop test_lib slots_job [(''slot_name'', ''s1'')] [] slot_row_bad_value p0
       = (ContinueJobs, \<lparr>timeOuts = 0, errors = 1, metricsCh = []\<rparr>)
   \<and> process_row test_lib slots_job (label_columns slots_job) slot_row_bad_value p0
       = (ContinueJobs, \<lparr>timeOuts = 0, errors = 1, metricsCh = []\<rparr>)
   \<and> rows_loop test_lib slots_job (label_columns slots_job)
        [slot_row_ok, slot_row_bad_value, slot_row_ok] p0
       = \<lparr>timeOuts = 0, errors = 1, metricsCh = [slot_gauge]\<rparr>"
  using C8_column_mode_value_failure [where job = slots_job and colName = "''current_lag_bytes''"
      and metric = "\<lparr>Usage = Gauge, Description = ''Lag in bytes''\<rparr>" and lib = test_lib
      and colValue = "VString ''n/a''" and err = "CouldNotParseString ''invalid syntax''"
      and labels = "[(''slot_name'', ''s1'')]" and constLabels = "[]"
      and earlier = "[(''slot_name'', VString ''s1'')]" and later = "[(''restarts'', VInt64 3)]"
      and p = p0 and rows_before = "[slot_row_ok]" and rows_after = "[slot_row_ok]"]
  by (simp add: fixture_defs model_defs)

subsection \<open>A name without a counter or gauge definition, in name/value mode\<close>

text \<open>
  Claim C10. In name/value mode, for a row whose name converts to a string that has no
  metric definition, or one with usage \<^verbatim>\<open>Discard\<close> or \<^verbatim>\<open>Label\<close>, \<^verbatim>\<open>createMetric\<close> returns
  neither a metric nor an error, so that lines 140-148 send nothing and leave the error
  counter as it is, in every state, and the worker goes on with the next row. Over the whole
  row the collector changes only by what the loop over the label columns counts, which is
  nothing when every label value converts.
\<close>

theorem C10_unknown_name_skipped:
  assumes mode: "NameColumn job \<noteq> ''''"
    and name: "ToString lib (index_map VNil row (NameColumn job)) = (metricName, True)"
    and usage: "map_of (Metrics job) metricName = None
      \<or> (\<exists>metric. map_of (Metrics job) metricName = Some metric
            \<and> (Usage metric = Discard \<or> Usage metric = Label))"
  shows "createMetric lib job metricName constLabels rawValue = Inr None
     \<and> name_value lib job constLabels row p = (NextRow, p)
     \<and> process_row lib job labelColumns row p
         = (NextRow, p\<lparr>errors := errors p + of_nat (failed_labels lib row labelColumns)\<rparr>)
     \<and> (failed_labels lib row labelColumns = 0 \<longrightarrow> process_row lib job labelColumns row p = (NextRow, p))
     \<and> rows_loop lib job labelColumns (row # later) p
         = rows_loop lib job labelColumns later
             (p\<lparr>errors := errors p + of_nat (failed_labels lib row labelColumns)\<rparr>)"
proof -
  have skip: "createMetric lib job metricName cl v = Inr None" for cl v
    using usage by (rule createMetric_skips)
  have nv: "name_value lib job cl row q = (NextRow, q)" for cl q
    by (simp add: name_value_def name skip)
  have pr: "process_row lib job labelColumns row p
      = (NextRow, p\<lparr>errors := errors p + of_nat (failed_labels lib row labelColumns)\<rparr>)"
    by (simp add: process_row_unfold mode nv)
  have pr0: "process_row lib job labelColumns row p = (NextRow, p)"
    if "failed_labels lib row labelColumns = 0"
    using that by (simp add: pr)
  have rl: "rows_loop lib job labelColumns (row # later) p
      = rows_loop lib job labelColumns later
          (p\<lparr>errors := errors p + of_nat (failed_labels lib row labelColumns)\<rparr>)"
    by (simp add: pr)
  from skip nv pr pr0 rl show ?thesis by blast
qed

theorem C10_unknown_name_skipped_witness:
  "NameColumn settings_job \<noteq> ''''
   \<and> ToString test_lib (index_map VNil setting_row_unknown (NameColumn settings_job))
       = (''max_connections'', True)
   \<and> map_of (Metrics settings_job) ''max_connections'' = None
   \<and> failed_labels test_lib setting_row_unknown (label_columns settings_job) = 0
   \<and> process_row test_lib settings_job (label_columns settings_job) setting_row_unknown p0
       = (NextRow, p0)
   \<and> rows_loop test_lib settings_job (label_columns settings_job)
        [setting_row_unknown, setting_row_ok] p0
       = \<lparr>timeOuts = 0, errors = 1, metricsCh = [work_mem_gauge]\<rparr>
   \<and> ToString test_lib (index_map VNil setting_row_unknown_bad_label (NameColumn settings_job))
       = (''max_connections'', True)
   \<and> name_value test_lib settings_job [(''env'', ''prod''), (''pending_restart'', '''')]
        setting_row_unknown_bad_label p0
       = (NextRow, p0)
   \<and> failed_labels test_lib setting_row_unknown_bad_label (label_columns settings_job) = 1
   \<and> process_row test_lib settings_job (label_columns settings_job)
        setting_row_unknown_bad_label p0
       = (NextRow, \<lparr>timeOuts = 0, errors = 1, metricsCh = []\<rparr>)"
  using C10_unknown_name_skipped [where job = settings_job and lib = test_lib
      and row = setting_row_unknown and metricName = "''max_connections''"
      and labelColumns = "label_columns settings_job" and p = p0 and later = "[setting_row_ok]"]
    C10_unknown_name_skipped [where job = settings_job and lib = test_lib
      and row = setting_row_unknown_bad_label and metricName = "''max_connections''"
      and labelColumns = "label_columns settings_job" and p = p0
      and constLabels = "[(''env'', ''prod''), (''pending_restart'', '''')]"]
  by (simp add: fixture_defs model_defs)

subsection \<open>A query that fails\<close>

text \<open>
  For every failure that \<^verbatim>\<open>Exec\<close> returns, the worker does what claim C5 says: the timeout
  value adds one to both counters, any other value adds one to the error counter only, no
  metric is sent, and the job is over.
\<close>

lemma run_job_exec_error:
  assumes "VerSQLs_Query (VerSQL job) (pgVersion job) = Inr sql" and "sql \<noteq> ''''"
    and "exec sql = Inr (Inl e)"
  shows "run_job lib exec job p
           = Inr (if e = ErrQueryTimeout
                  then p\<lparr>timeOuts := timeOuts p + 1, errors := errors p + 1\<rparr>
                  else p\<lparr>errors := errors p + 1\<rparr>)"
  using assms by (simp add: run_job_def count_error_def count_timeout_def)

lemma Db_Exec_timeout:
  "Db_Exec (QueryPqError code message) = Inr (Inl ErrQueryTimeout)
     \<longleftrightarrow> code = ''57014'' \<and> Contains message ''statement timeout''"
  by (simp add: queryCanceled_def)

lemma Db_Exec_returns_error:
  "Db_Exec r = Inr (Inl e) \<Longrightarrow>
     (\<exists>code message. r = QueryPqError code message) \<or> (\<exists>t. r = ColumnsError t) \<or> (\<exists>t. r = ScanError t)"
  by (cases r) auto

lemma run_job_exec_error_no_metric:
  assumes "VerSQLs_Query (VerSQL job) (pgVersion job) = Inr sql" and "sql \<noteq> ''''"
    and "exec sql = Inr (Inl e)"
  shows "\<exists>p'. run_job lib exec job p = Inr p' \<and> metricsCh p' = metricsCh p
           \<and> worker lib exec (job # jobs) p = worker lib exec jobs p'"
  using assms by (simp add: run_job_exec_error)

text \<open>
  Claim C5 at an input where it fails. \<^verbatim>\<open>d.db.Query\<close> returns an error that is not a
  \<^verbatim>\<open>*pq.Error\<close> (the server went away): the unchecked type assertion of \<^verbatim>\<open>Db.Exec\<close>
  panics, so \<^verbatim>\<open>Exec\<close> returns nothing, the worker counts nothing and the process ends.
\<close>

theorem C5_Exec_panics_on_other_error:
  "Db_Exec (QueryOtherError ''connection reset by peer'' :: rat option driver_result)
     = Inl TypeAssertion
   \<and> run_job test_lib (\<lambda>sql. Db_Exec (QueryOtherError ''connection reset by peer'')) slots_job p0
     = Inl TypeAssertion
   \<and> worker test_lib (\<lambda>sql. Db_Exec (QueryOtherError ''connection reset by peer''))
        [slots_job, settings_job] p0
     = Inl TypeAssertion"
  by (simp add: fixture_defs model_defs)

section \<open>Properties of the collection cycle\<close>

lemmas cycle_defs = Collect_def Collect_pgx_def DbList_def Db_def two_targets_def
  two_targets_two_workers_def target_conf_def slots_query_def healthy_conn_def
  healthy_conn_pgx_def world_a_down_def world_a_second_down_def world_a_down_pgx_def
  new_cycle_def cycle_error_def detect_version_def InstanceName_def dispatch_def make_job_def
  close_fails_def close_fails_pgx_def report_def internal_metric_def internal_metrics_def
  target_pgx_def zero_DbConfig_def rows_loop.simps run_job_pgx_def make_job_pgx_def
  label_columns_pgx_def process_row_pgx_def name_value_pgx_def createMetric_pgx_def

text \<open>
  Claim C2 at inputs where it fails. Targets "a" and "b" are visited in this order, "a"
  cannot be reached and "b" is healthy. \<^verbatim>\<open>break dbLoop\<close> leaves the loop over the targets:
  the cycle ends with one error and the internal metrics only, and the gauge that "b" yields
  when it is the only target is missing. When "a" has two workers and only its second
  connection fails, the first worker waits on a channel that is never closed and the cycle
  never ends. The later revision, which leaves the inner loop only, reports the error and
  the gauge of "b".
\<close>

theorem C2_break_leaves_the_target_loop:
  "Collect test_lib world_a_down two_targets
     = Inr \<lparr>timeOuts = 0, errors = 1, metricsCh = internal_metrics 1\<rparr>
   \<and> Collect test_lib world_a_down [(''b'', target_conf ''db-b'' 1)]
     = Inr \<lparr>timeOuts = 0, errors = 0, metricsCh = slot_gauge # internal_metrics 0\<rparr>
   \<and> Collect test_lib world_a_second_down two_targets_two_workers = Inl BlockedForever
   \<and> Collect_pgx test_lib world_a_down_pgx two_targets
     = Inr \<lparr>timeOuts = 0, errors = 1, metricsCh = slot_gauge # internal_metrics 1\<rparr>"
  by (simp add: cycle_defs fixture_defs model_defs eval_nat_numeral)

text \<open>
  In general: when the inner loop is left by \<^verbatim>\<open>break dbLoop\<close>, the targets that follow have
  no influence on the outcome of the cycle.
\<close>

lemma dbLoop_break:
  assumes "0 \<le> Workers (Db c dbName)"
    and "connect_loop w dbName (Db c dbName) 0 (nat (Workers (Db c dbName))) [] s = (True, conns, s')"
  shows "dbLoop lib w c (dbName # rest) s
           = (if conns = [] then Inr (s'\<lparr>dbPool := AList.update dbName conns (dbPool s')\<rparr>)
              else Inl BlockedForever)"
  using assms by simp

lemma dbLoop_first_New_fails:
  assumes "0 < Workers (Db c dbName)" and "db_New w dbName 0 = Inl err"
  shows "dbLoop lib w c (dbName # rest) s
           = Inr ((cycle_error s)\<lparr>dbPool := AList.update dbName [] (dbPool s)\<rparr>)"
proof -
  from assms(1) obtain n where n: "nat (Workers (Db c dbName)) = Suc n"
    by (cases "nat (Workers (Db c dbName))") auto
  show ?thesis using assms by (simp add: n cycle_error_def)
qed

text \<open>
  The later revision does what claim C2 says: a target whose pool stays empty adds exactly
  one error and no metric, and the loop goes on with the targets that follow.
\<close>

lemma connect_loop_pgx_keeps:
  "conns \<noteq> [] \<Longrightarrow> fst (connect_loop_pgx w dbName dbConf i n conns p) \<noteq> []"
  by (induction n arbitrary: i conns p) (auto split: sum.splits)

lemma connect_loop_pgx_empty:
  assumes "fst (connect_loop_pgx w dbName dbConf i (Suc n) [] p) = []"
  shows "connect_loop_pgx w dbName dbConf i (Suc n) [] p = ([], count_error p)"
  using assms connect_loop_pgx_keeps [of "[c]" w dbName dbConf "Suc i" n p for c]
  by (auto split: sum.splits if_splits)

lemma target_pgx_no_adapter:
  assumes "0 < Workers dbConf"
    and "fst (connect_loop_pgx w dbName dbConf 0 (nat (Workers dbConf)) [] p) = []"
  shows "target_pgx lib w dbName dbConf p = Inr ([], count_error p)"
proof -
  from assms(1) obtain n where n: "nat (Workers dbConf) = Suc n"
    by (cases "nat (Workers dbConf)") auto
  from assms(2) have "connect_loop_pgx w dbName dbConf 0 (Suc n) [] p = ([], count_error p)"
    unfolding n by (rule connect_loop_pgx_empty)
  then show ?thesis by (simp add: target_pgx_def n)
qed

lemma dbLoop_pgx_goes_on:
  assumes "0 < Workers (Db c dbName)"
    and "fst (connect_loop_pgx w dbName (Db c dbName) 0 (nat (Workers (Db c dbName))) [] p) = []"
  shows "dbLoop_pgx lib w c (dbName # rest) (pool, p)
           = dbLoop_pgx lib w c rest (AList.update dbName [] pool, count_error p)"
  using target_pgx_no_adapter [OF assms] by simp

end
